theory Spec2Isabelle
  imports Complex_Main "HOL-Library.AList" "HOL-Library.Log_Nat"
begin

section \<open>JavaScript values\<close>

text \<open>
  Numbers of the server are IEEE doubles. The numbers of an upstream document enter the
  resampler as the reals they denote, and the arithmetic on them there is that of the
  reals; the numbers parsed from a query string and the delays of the retry loop are
  rounded to doubles (see below). An array entry or property value is \<open>undefined\<close>,
  \<open>null\<close> or a number.
\<close>

datatype jsval = Undefined | Null | Num real

text \<open>\<open>v == null\<close> holds for \<open>null\<close> and for \<open>undefined\<close>.\<close>

fun is_nullish :: "jsval \<Rightarrow> bool" where
  "is_nullish Undefined = True"
| "is_nullish Null = True"
| "is_nullish (Num x) = False"

text \<open>
  An upstream JSON array holds numbers and nulls; reading past its end gives
  \<open>undefined\<close>.
\<close>

definition js_nth :: "real option list \<Rightarrow> nat \<Rightarrow> jsval" where
  "js_nth xs i =
     (if i < length xs then (case xs ! i of None \<Rightarrow> Null | Some x \<Rightarrow> Num x)
      else Undefined)"

text \<open>\<open>x != null ? Number(x) : null\<close>\<close>

definition num_or_null :: "jsval \<Rightarrow> jsval" where
  "num_or_null v = (if \<not> is_nullish v then v else Null)"

text \<open>An object literal is its list of properties; a missing property reads as \<open>undefined\<close>.\<close>

type_synonym js_object = "(string \<times> jsval) list"

definition get_prop :: "js_object \<Rightarrow> string \<Rightarrow> jsval" where
  "get_prop obj k = (case map_of obj k of None \<Rightarrow> Undefined | Some v \<Rightarrow> v)"

subsection \<open>Numbers read from query strings\<close>

text \<open>
  The result of \<open>parseFloat\<close>: \<open>NaN\<close>, a finite number, or an infinity.
\<close>

datatype jsnum = NaN | Fin real | PosInf | NegInf

subsection \<open>Rounding to doubles\<close>

text \<open>
  The integer nearest to \<open>q\<close>, the even one of the two when \<open>q\<close> lies half way.
\<close>

definition round_even :: "real \<Rightarrow> int" where
  "round_even q =
     (let f = \<lfloor>q\<rfloor> in
      if q - of_int f < 1 / 2 then f
      else if 1 / 2 < q - of_int f then f + 1
      else if even f then f else f + 1)"

text \<open>The binary exponent \<open>e\<close> of a positive real: \<open>2^e \<le> x < 2^(e+1)\<close>.\<close>

definition exponent :: "real \<Rightarrow> int" where
  "exponent x = (if 1 \<le> x then bitlen \<lfloor>x\<rfloor> - 1 else - bitlen (\<lceil>1 / x\<rceil> - 1))"

text \<open>
  The distance between neighbouring doubles at \<open>x\<close>: 53 significant bits, and the
  spacing \<open>2^-1074\<close> of the subnormal numbers below \<open>2^-1022\<close>.
\<close>

definition ulp :: "real \<Rightarrow> real" where
  "ulp x = 2 powi (max (exponent \<bar>x\<bar>) (- 1022) - 52)"

text \<open>
  The result of an arithmetic operation or of reading a decimal literal is the exact
  result rounded to the nearest double, to the one with an even last bit when two are
  equally near. \<open>to_double\<close> is that rounding for an unbounded exponent range, on the
  reals that finite doubles denote (the two zeros are one number).
\<close>

definition to_double :: "real \<Rightarrow> real" where
  "to_double x = (if x = 0 then 0 else of_int (round_even (x / ulp x)) * ulp x)"

text \<open>
  The largest exponent of a double is 1023: a result whose rounding reaches \<open>2^1024\<close>
  is an infinity.
\<close>

definition fl :: "real \<Rightarrow> jsnum" where
  "fl x =
     (let y = to_double x
      in if y = 0 \<or> exponent \<bar>y\<bar> \<le> 1023 then Fin y
         else if 0 < y then PosInf else NegInf)"

text \<open>The product \<open>x * y\<close> of two numbers.\<close>

fun js_times :: "jsnum \<Rightarrow> jsnum \<Rightarrow> jsnum" where
  "js_times NaN y = NaN"
| "js_times x NaN = NaN"
| "js_times (Fin a) (Fin b) = fl (a * b)"
| "js_times (Fin a) y =
     (if a = 0 then NaN else if (a < 0) = (y = NegInf) then PosInf else NegInf)"
| "js_times x (Fin b) =
     (if b = 0 then NaN else if (b < 0) = (x = NegInf) then PosInf else NegInf)"
| "js_times x y = (if x = y then PosInf else NegInf)"

text \<open>
  A query parameter is a string or missing. \<open>a || b\<close> on such values: the empty string
  and \<open>undefined\<close> are falsy.
\<close>

definition falsy :: "string option \<Rightarrow> bool" where
  "falsy a = (a = None \<or> a = Some [])"

definition js_or :: "string option \<Rightarrow> string option \<Rightarrow> string option" where
  "js_or a b = (if \<not> falsy a then a else b)"

text \<open>White space that \<open>parseFloat\<close>, \<open>parseInt\<close> and \<open>trim\<close> strip (the ASCII part).\<close>

definition is_space :: "char \<Rightarrow> bool" where
  "is_space c = (c \<in> set [CHR '' '', CHR 0x09, CHR 0x0A, CHR 0x0B, CHR 0x0C, CHR 0x0D])"

definition is_digit :: "char \<Rightarrow> bool" where
  "is_digit c = (48 \<le> (of_char c :: nat) \<and> (of_char c :: nat) \<le> 57)"

definition digits_val :: "string \<Rightarrow> nat" where
  "digits_val ds = foldl (\<lambda>acc c. acc * 10 + ((of_char c :: nat) - 48)) 0 ds"

text \<open>An optional sign: the factor and the rest of the string.\<close>

fun read_sign :: "string \<Rightarrow> int \<times> string" where
  "read_sign [] = (1, [])"
| "read_sign (c # cs) =
     (if c = CHR ''-'' then (-1, cs) else if c = CHR ''+'' then (1, cs) else (1, c # cs))"

text \<open>
  The exponent part \<open>e\<close>, \<open>E\<close> with a signed integer; it is read only when at least
  one digit follows, otherwise the exponent is 0.
\<close>

definition read_exponent :: "string \<Rightarrow> int" where
  "read_exponent s =
     (case s of
        [] \<Rightarrow> 0
      | c # cs \<Rightarrow>
          (if c = CHR ''e'' \<or> c = CHR ''E''
           then (let (sg, r) = read_sign cs; ds = takeWhile is_digit r
                 in if ds = [] then 0 else sg * int (digits_val ds))
           else 0))"

definition scale10 :: "real \<Rightarrow> int \<Rightarrow> real" where
  "scale10 x e = (if 0 \<le> e then x * 10 ^ nat e else x / 10 ^ nat (- e))"

text \<open>
  \<open>parseFloat\<close> applied to a string: the longest prefix, after leading white space, that
  is a decimal literal (\<open>Infinity\<close>, digits with an optional fraction and exponent, or a
  fraction without integer part), \<open>NaN\<close> when there is none. The result is the double
  nearest to the value of the literal.
\<close>

definition parseFloat_str :: "string \<Rightarrow> jsnum" where
  "parseFloat_str s =
     (let (sg, r) = read_sign (dropWhile is_space s) in
      if take 8 r = ''Infinity'' then (if sg < 0 then NegInf else PosInf)
      else
        (let ip = takeWhile is_digit r;
             r1 = dropWhile is_digit r;
             has_dot = (r1 \<noteq> [] \<and> hd r1 = CHR ''.'');
             fp = (if has_dot then takeWhile is_digit (tl r1) else []);
             r2 = (if has_dot then dropWhile is_digit (tl r1) else r1)
         in if ip = [] \<and> fp = [] then NaN
            else fl (real_of_int sg *
                   scale10 (of_int (int (digits_val ip))
                              + of_int (int (digits_val fp)) / 10 ^ length fp)
                           (read_exponent r2))))"

text \<open>A missing parameter is \<open>undefined\<close>, whose string form is not a number.\<close>

definition parseFloat :: "string option \<Rightarrow> jsnum" where
  "parseFloat a = (case a of None \<Rightarrow> NaN | Some s \<Rightarrow> parseFloat_str s)"

text \<open>
  \<open>parseInt(s, 10)\<close>: \<open>None\<close> is \<open>NaN\<close>. The result is the double nearest to the
  integer written, which is that integer when it is below \<open>2^53\<close>. A numeral of more
  than 308 digits, which \<open>parseInt\<close> reads as an infinity, is outside the model.
\<close>

definition parseInt :: "string \<Rightarrow> int option" where
  "parseInt s =
     (let (sg, r) = read_sign (dropWhile is_space s); ds = takeWhile is_digit r
      in if ds = [] then None else Some (sg * \<lfloor>to_double (of_int (int (digits_val ds)))\<rfloor>))"

text \<open>\<open>Math.max(0, n)\<close>: \<open>NaN\<close> stays \<open>NaN\<close>.\<close>

definition max0 :: "int option \<Rightarrow> int option" where
  "max0 n = map_option (max 0) n"

text \<open>\<open>parseInt(q || dflt, 10)\<close>\<close>

definition parseInt_or :: "string option \<Rightarrow> string \<Rightarrow> int option" where
  "parseInt_or q dflt = (case js_or q (Some dflt) of None \<Rightarrow> None | Some s \<Rightarrow> parseInt s)"

section \<open>Upstream client\<close>

text \<open>
  A thrown value: the handlers distinguish \<open>err.name === 'AbortError'\<close> from any other
  error, whose message is a text, followed by a status code where the source formats one
  into it.
\<close>

datatype js_error = AbortError | Error string "nat option"

text \<open>
  What one awaited \<open>fetchWithTimeout\<close> call does: it throws (network failure, abort by
  the deadline timer), or it returns a response with a status code and a body;
  the body is \<open>None\<close> when \<open>resp.json()\<close> would reject.
\<close>

datatype 'b fetched = Threw js_error | Resp nat "'b option"

text \<open>\<open>resp.ok\<close>\<close>

definition ok :: "nat \<Rightarrow> bool" where
  "ok st = (200 \<le> st \<and> st \<le> 299)"

text \<open>
  The run of \<open>fetchWithRetries\<close>: its outcome (it throws or returns a response), the
  number of \<open>fetchWithTimeout\<close> calls it made and the delays it gave to \<open>setTimeout\<close>,
  in order.
\<close>

record 'b retry_run =
  outcome :: "'b fetched"
  calls :: nat
  delays :: "jsnum list"

text \<open>
  \<open>Math.round\<close>: the nearest integer, the larger one of the two for a number half way
  between them.
\<close>

definition js_round :: "real \<Rightarrow> int" where
  "js_round x = \<lfloor>x + 1 / 2\<rfloor>"

fun Math_round :: "jsnum \<Rightarrow> jsnum" where
  "Math_round (Fin x) = Fin (of_int (js_round x))"
| "Math_round n = n"

text \<open>
  \<open>0.75 + Math.random() * 0.5\<close> for a draw \<open>r\<close> of \<open>Math.random()\<close>, a double with
  \<open>0 \<le> r < 1\<close>: the product and the sum are each rounded.
\<close>

definition jitter :: "real \<Rightarrow> real" where
  "jitter r = to_double (0.75 + to_double (r * 0.5))"

text \<open>
  \<open>Math.round(backoffBase * Math.pow(2, attempt - 1) * (0.75 + Math.random() * 0.5))\<close>,
  for a finite \<open>backoffBase\<close>, a draw \<open>r\<close> and \<open>attempt \<ge> 1\<close>: the products are taken
  from left to right and each is rounded.
\<close>

definition backoff_delay :: "real \<Rightarrow> int \<Rightarrow> real \<Rightarrow> jsnum" where
  "backoff_delay backoffBase attempt r =
     Math_round (js_times (js_times (Fin backoffBase) (fl (2 ^ nat (attempt - 1))))
                          (Fin (jitter r)))"

text \<open>
  The loop of \<open>fetchWithRetries\<close>. \<open>upstream k\<close> is what the \<open>k\<close>-th call of
  \<open>fetchWithTimeout\<close> does and \<open>rand k\<close> the \<open>k\<close>-th draw of \<open>Math.random()\<close> (both
  counted from 0); \<open>attempt\<close> calls have been made on entry, \<open>lastErr\<close> is \<open>None\<close>
  for \<open>null\<close>.
\<close>

function retry_loop ::
    "(nat \<Rightarrow> 'b fetched) \<Rightarrow> (nat \<Rightarrow> real) \<Rightarrow> int \<Rightarrow> real \<Rightarrow> int \<Rightarrow> js_error option
      \<Rightarrow> jsnum list \<Rightarrow> 'b retry_run" where
  "retry_loop upstream rand retries backoffBase attempt lastErr ds =
     (if attempt \<le> retries then
        (case (case upstream (nat attempt) of
                 Resp st b \<Rightarrow>
                   if ok st \<or> st < 500 then Inr (Resp st b)
                   else Inl (Error ''Upstream responded '' (Some st))
               | Threw err \<Rightarrow> Inl err) of
           Inr resp \<Rightarrow> \<lparr> outcome = resp, calls = nat attempt + 1, delays = ds \<rparr>
         | Inl e \<Rightarrow>
             (if attempt + 1 > retries
              then \<lparr> outcome = Threw e, calls = nat attempt + 1, delays = ds \<rparr>
              else retry_loop upstream rand retries backoffBase (attempt + 1) (Some e)
                     (ds @ [backoff_delay backoffBase (attempt + 1) (rand (nat attempt))])))
      else \<lparr> outcome = Threw (case lastErr of
                              None \<Rightarrow> Error ''fetchWithRetries: unknown error'' None
                            | Some e \<Rightarrow> e),
             calls = nat attempt, delays = ds \<rparr>)"
  by pat_completeness auto
termination
  by (relation "measure (\<lambda>(upstream, rand, retries, backoffBase, attempt, lastErr, ds).
                  nat (retries + 1 - attempt))") auto

declare retry_loop.simps [simp del]

definition fetchWithRetries ::
    "(nat \<Rightarrow> 'b fetched) \<Rightarrow> (nat \<Rightarrow> real) \<Rightarrow> int \<Rightarrow> real \<Rightarrow> 'b retry_run" where
  "fetchWithRetries upstream rand retries backoffBase =
     retry_loop upstream rand retries backoffBase 0 None []"


section \<open>The marine resampler (\<open>/api/marine\<close>)\<close>

text \<open>
  Time stamps are the epoch milliseconds that \<open>new Date(t).getTime()\<close> gives for the
  upstream time strings, which are taken to be valid dates; \<open>toISOString\<close> of such a
  number is represented by the number itself.
\<close>

definition stepMs :: int where
  "stepMs = 15 * 60 * 1000"

subsection \<open>Upstream response\<close>

text \<open>\<open>json.hourly\<close>: a missing array is the empty one (\<open>hourly.x || []\<close>).\<close>

record hourly =
  time :: "int list"
  wave_height :: "real option list"
  windspeed_10m :: "real option list"
  shortwave_radiation :: "real option list"
  significant_wave_period :: "real option list"
  swell_height :: "real option list"

text \<open>
  \<open>json.minutely\<close>: each of the two properties the handler reads may be missing;
  \<open>m_other_keys\<close> counts the remaining properties of the object.
\<close>

record minutely =
  m_time :: "int list option"
  m_shortwave_radiation :: "real option list option"
  m_other_keys :: nat

record marine_json =
  j_latitude :: "real option"
  j_longitude :: "real option"
  j_minutely :: "minutely option"
  j_hourly :: "hourly option"

subsection \<open>Interpolation from hourly points\<close>

record point =
  ts :: int
  wave :: jsval
  wind :: jsval
  sw :: jsval
  period :: jsval
  swell :: jsval

text \<open>\<open>times.map((t, i) => ({ ts: ..., wave: wh[i] != null ? Number(wh[i]) : null, ... }))\<close>\<close>

definition mk_point :: "hourly \<Rightarrow> nat \<Rightarrow> point" where
  "mk_point h i =
     \<lparr> ts = time h ! i,
       wave = num_or_null (js_nth (wave_height h) i),
       wind = num_or_null (js_nth (windspeed_10m h) i),
       sw = num_or_null (js_nth (shortwave_radiation h) i),
       period = num_or_null (js_nth (significant_wave_period h) i),
       swell = num_or_null (js_nth (swell_height h) i) \<rparr>"

definition build_points :: "hourly \<Rightarrow> point list" where
  "build_points h = map (mk_point h) [0..<length (time h)]"

text \<open>
  \<open>(aVal == null || bVal == null) ? (aVal != null ? aVal : bVal)
     : (aVal + (bVal - aVal) * frac)\<close>
\<close>

definition mix :: "real \<Rightarrow> jsval \<Rightarrow> jsval \<Rightarrow> jsval" where
  "mix frac' aVal bVal =
     (if is_nullish aVal \<or> is_nullish bVal
      then (if \<not> is_nullish aVal then aVal else bVal)
      else (case (aVal, bVal) of
              (Num x, Num y) \<Rightarrow> Num (x + (y - x) * frac')
            | _ \<Rightarrow> Undefined))"

text \<open>\<open>let i = 0; while (i < points.length - 1 && points[i+1].ts < ts) i++\<close>\<close>

function find_bracket :: "point list \<Rightarrow> int \<Rightarrow> nat \<Rightarrow> nat" where
  "find_bracket points t i =
     (if i + 1 < length points \<and> ts (points ! (i + 1)) < t
      then find_bracket points t (i + 1) else i)"
  by pat_completeness auto
termination
  by (relation "measure (\<lambda>(points, t, i). length points - i)") auto

declare find_bracket.simps [simp del]

text \<open>The object \<open>{ wave: .., wind: .., sw: .. }\<close> that every branch of \<open>interp\<close> returns.\<close>

definition wws :: "jsval \<Rightarrow> jsval \<Rightarrow> jsval \<Rightarrow> js_object" where
  "wws a b c = [(''wave'', a), (''wind'', b), (''sw'', c)]"

definition interp :: "point list \<Rightarrow> int \<Rightarrow> js_object" where
  "interp points t =
     (if points = [] then wws Null Null Null
      else if t \<le> ts (points ! 0)
        then wws (wave (points ! 0)) (wind (points ! 0)) (sw (points ! 0))
      else if t \<ge> ts (points ! (length points - 1))
        then wws (wave (points ! (length points - 1))) (wind (points ! (length points - 1)))
                 (sw (points ! (length points - 1)))
      else
        (let i = find_bracket points t 0; a = points ! i in
         if \<not> (i + 1 < length points) then wws (wave a) (wind a) (sw a)
         else
           (let b = points ! (i + 1) in
            if ts a = ts b then wws (wave a) (wind a) (sw a)
            else
              (let frac' = real_of_int (t - ts a) / real_of_int (ts b - ts a) in
               wws (mix frac' (wave a) (wave b)) (mix frac' (wind a) (wind b))
                   (mix frac' (sw a) (sw b))))))"

subsection \<open>The output series\<close>

record series15 =
  s_time :: "int list"
  s_wave_height :: "jsval list"
  s_windspeed_10m :: "jsval list"
  s_shortwave_radiation :: "jsval list"
  s_significant_wave_period :: "jsval list"
  s_swell_height :: "jsval list"

definition empty_series :: series15 where
  "empty_series =
     \<lparr> s_time = [], s_wave_height = [], s_windspeed_10m = [], s_shortwave_radiation = [],
       s_significant_wave_period = [], s_swell_height = [] \<rparr>"

text \<open>The body of the loop over the grid: one \<open>push\<close> per array.\<close>

definition push_interp :: "point list \<Rightarrow> int \<Rightarrow> series15 \<Rightarrow> series15" where
  "push_interp points t s =
     (let v = interp points t in
      \<lparr> s_time = s_time s @ [t],
        s_wave_height = s_wave_height s @ [get_prop v ''wave''],
        s_windspeed_10m = s_windspeed_10m s @ [get_prop v ''wind''],
        s_shortwave_radiation = s_shortwave_radiation s @ [get_prop v ''sw''],
        s_significant_wave_period = s_significant_wave_period s @ [get_prop v ''period''],
        s_swell_height = s_swell_height s @ [get_prop v ''swell''] \<rparr>)"

text \<open>\<open>for (let ts = startTs; ts <= endTs; ts += stepMs) { ... }\<close>\<close>

function grid_loop :: "point list \<Rightarrow> int \<Rightarrow> int \<Rightarrow> series15 \<Rightarrow> series15" where
  "grid_loop points t endTs s =
     (if t \<le> endTs then grid_loop points (t + stepMs) endTs (push_interp points t s) else s)"
  by pat_completeness auto
termination
  by (relation "measure (\<lambda>(points, t, endTs, s). nat (endTs - t + 1))")
     (auto simp: stepMs_def)

declare grid_loop.simps [simp del]

text \<open>The interpolation path, for a window of \<open>pastSteps\<close> and \<open>forecastSteps\<close>.\<close>

definition interpolate_series :: "hourly \<Rightarrow> int \<Rightarrow> int \<Rightarrow> int \<Rightarrow> series15" where
  "interpolate_series h now pastSteps forecastSteps =
     (let points = build_points h;
          startTs = now - pastSteps * stepMs;
          endTs = now + forecastSteps * stepMs
      in grid_loop points startTs endTs empty_series)"

subsection \<open>Bucket aggregation of upstream minutely samples\<close>

text \<open>
  \<open>(minutely.shortwave_radiation && minutely.shortwave_radiation[i] != null)
     ? Number(minutely.shortwave_radiation[i]) : 0\<close>
\<close>

definition sw_sample :: "minutely \<Rightarrow> nat \<Rightarrow> real" where
  "sw_sample m i =
     (case m_shortwave_radiation m of
        None \<Rightarrow> 0
      | Some xs \<Rightarrow> (case js_nth xs i of Num x \<Rightarrow> x | _ \<Rightarrow> 0))"

text \<open>
  The window bounds are numbers or \<open>NaN\<close> (\<open>None\<close>); a comparison with \<open>NaN\<close> is
  false. \<open>t < startTs || t > endTs\<close>:
\<close>

definition outside_window :: "int \<Rightarrow> int option \<Rightarrow> int option \<Rightarrow> bool" where
  "outside_window t startTs endTs =
     ((case startTs of None \<Rightarrow> False | Some a \<Rightarrow> t < a) \<or>
      (case endTs of None \<Rightarrow> False | Some b \<Rightarrow> t > b))"

text \<open>\<open>Math.floor(t / stepMs) * stepMs\<close>\<close>

definition bucket_of :: "int \<Rightarrow> int" where
  "bucket_of t = (t div stepMs) * stepMs"

record bucket =
  b_sum :: real
  b_count :: nat

text \<open>The object \<open>buckets\<close>, with its keys in insertion order.\<close>

type_synonym buckets = "(int \<times> bucket) list"

text \<open>One round of the loop over \<open>minTimes\<close>, for the sample with time \<open>t\<close> and value \<open>val\<close>.\<close>

definition add_sample :: "int option \<Rightarrow> int option \<Rightarrow> int \<times> real \<Rightarrow> buckets \<Rightarrow> buckets" where
  "add_sample startTs endTs x buckets =
     (let t = fst x; val = snd x in
      if outside_window t startTs endTs then buckets
      else
        (let b = (case map_of buckets (bucket_of t) of
                    None \<Rightarrow> \<lparr> b_sum = 0, b_count = 0 \<rparr>
                  | Some b \<Rightarrow> b)
         in AList.update (bucket_of t) \<lparr> b_sum = b_sum b + val, b_count = b_count b + 1 \<rparr>
              buckets))"

text \<open>The samples in the order of the loop: \<open>minTimes[i]\<close> with its value.\<close>

definition samples :: "minutely \<Rightarrow> (int \<times> real) list" where
  "samples m =
     (let minTimes = (case m_time m of None \<Rightarrow> [] | Some xs \<Rightarrow> xs)
      in map (\<lambda>i. (minTimes ! i, sw_sample m i)) [0..<length minTimes])"

definition fill_buckets :: "minutely \<Rightarrow> int option \<Rightarrow> int option \<Rightarrow> buckets" where
  "fill_buckets m startTs endTs = fold (add_sample startTs endTs) (samples m) []"

text \<open>\<open>Object.keys(buckets).map(k => parseInt(k, 10)).sort((a,b) => a-b)\<close>\<close>

definition bucket_keys :: "buckets \<Rightarrow> int list" where
  "bucket_keys bs = sort (map fst bs)"

text \<open>
  The loop over the keys. Reading \<open>b.count\<close> of a missing bucket would raise a
  \<open>TypeError\<close>: the result \<open>None\<close>.
\<close>

fun emit_buckets :: "buckets \<Rightarrow> int list \<Rightarrow> series15 \<Rightarrow> series15 option" where
  "emit_buckets bs [] s = Some s"
| "emit_buckets bs (k # ks) s =
     (case map_of bs k of
        None \<Rightarrow> None
      | Some b \<Rightarrow>
          emit_buckets bs ks
            (s\<lparr> s_time := s_time s @ [k],
               s_shortwave_radiation := s_shortwave_radiation s @
                 [if b_count b \<noteq> 0 then Num (b_sum b / real (b_count b)) else Null] \<rparr>))"

definition opt_sub :: "int \<Rightarrow> int option \<Rightarrow> int option" where
  "opt_sub a n = map_option (\<lambda>k. a - k * stepMs) n"

definition opt_add :: "int \<Rightarrow> int option \<Rightarrow> int option" where
  "opt_add a n = map_option (\<lambda>k. a + k * stepMs) n"

definition aggregate_series ::
    "minutely \<Rightarrow> int \<Rightarrow> int option \<Rightarrow> int option \<Rightarrow> series15 option" where
  "aggregate_series m now pastSteps forecastSteps =
     (let startTs = opt_sub now pastSteps;
          endTs = opt_add now forecastSteps;
          bs = fill_buckets m startTs endTs
      in emit_buckets bs (bucket_keys bs) empty_series)"

subsection \<open>Choice of the path\<close>

definition inSupportedRegion :: "jsnum \<Rightarrow> jsnum \<Rightarrow> bool" where
  "inSupportedRegion lat lon =
     (case (lat, lon) of
        (Fin la, Fin lo) \<Rightarrow>
          (if la \<ge> 15 \<and> la \<le> 75 \<and> lo \<ge> -170 \<and> lo \<le> -50 then True
           else if la \<ge> 35 \<and> la \<le> 70 \<and> lo \<ge> -10 \<and> lo \<le> 40 then True
           else False)
      | _ \<Rightarrow> False)"

text \<open>\<open>json.minutely && Object.keys(json.minutely).length > 0\<close>\<close>

definition hasMinutely :: "marine_json \<Rightarrow> bool" where
  "hasMinutely json =
     (case j_minutely json of
        None \<Rightarrow> False
      | Some m \<Rightarrow> m_time m \<noteq> None \<or> m_shortwave_radiation m \<noteq> None \<or> m_other_keys m > 0)"

text \<open>\<open>(forecastSteps + pastSteps) > 0\<close>, false when either is \<open>NaN\<close>.\<close>

definition wantMinutely15 :: "int option \<Rightarrow> int option \<Rightarrow> bool" where
  "wantMinutely15 forecastSteps pastSteps =
     (case (forecastSteps, pastSteps) of (Some f, Some p) \<Rightarrow> f + p > 0 | _ \<Rightarrow> False)"

text \<open>
  The variable \<open>series15\<close> after both \<open>if\<close> statements: \<open>Inr None\<close> is \<open>null\<close>,
  \<open>Inl ()\<close> an exception raised on the way.
\<close>

definition empty_hourly :: hourly where
  "empty_hourly =
     \<lparr> time = [], wave_height = [], windspeed_10m = [], shortwave_radiation = [],
       significant_wave_period = [], swell_height = [] \<rparr>"

definition resample ::
    "marine_json \<Rightarrow> jsnum \<Rightarrow> jsnum \<Rightarrow> int \<Rightarrow> int option \<Rightarrow> int option
      \<Rightarrow> unit + series15 option" where
  "resample json lat lon now pastSteps forecastSteps =
     (if hasMinutely json \<and> inSupportedRegion lat lon
      then (case j_minutely json of
              None \<Rightarrow> Inl ()
            | Some m \<Rightarrow>
                (case aggregate_series m now pastSteps forecastSteps of
                   None \<Rightarrow> Inl ()
                 | Some s \<Rightarrow> Inr (Some s)))
      else if wantMinutely15 forecastSteps pastSteps
      then (case (pastSteps, forecastSteps) of
              (Some p, Some f) \<Rightarrow>
                Inr (Some (interpolate_series
                             (case j_hourly json of None \<Rightarrow> empty_hourly | Some h \<Rightarrow> h)
                             now p f))
            | _ \<Rightarrow> Inr None)
      else Inr None)"

section \<open>Response cache\<close>

text \<open>
  The cache keys are the template strings of the handlers. The keys of the forecast, the
  air-quality and the climate handler are kept as their text. The key of the marine
  handler, \<open>marine:${lat}:${lon}:${forecastSteps}:${pastSteps}\<close>, is kept as the four
  numbers formatted into it: the text of a number has no colon and determines the
  number, so two such keys are the same string exactly when the four numbers agree,
  and the prefix keeps them apart from the keys of the other handlers.
\<close>

datatype cache_key =
    TextKey string
  | MarineKey jsnum jsnum "int option" "int option"

text \<open>The text of an integer in a template string (for integers below \<open>10^21\<close>).\<close>

fun decimal_nat :: "nat \<Rightarrow> string" where
  "decimal_nat n =
     (if n < 10 then [char_of (48 + n)]
      else decimal_nat (n div 10) @ [char_of (48 + n mod 10)])"

declare decimal_nat.simps [simp del]

definition decimal :: "int \<Rightarrow> string" where
  "decimal n = (if n < 0 then CHR ''-'' # decimal_nat (nat (- n)) else decimal_nat (nat n))"

text \<open>
  \<open>`forecast:${city.toLowerCase()}`\<close> for the lower-cased city, \<open>`aq:${lat}:${lon}`\<close> and
  \<open>`climate:${lat}:${lon}:${clampYears}`\<close>.
\<close>

definition ForecastKey :: "string \<Rightarrow> cache_key" where
  "ForecastKey lowered = TextKey (''forecast:'' @ lowered)"

definition AqKey :: "string \<Rightarrow> string \<Rightarrow> cache_key" where
  "AqKey lat lon = TextKey (''aq:'' @ lat @ '':'' @ lon)"

definition ClimateKey :: "string \<Rightarrow> string \<Rightarrow> int \<Rightarrow> cache_key" where
  "ClimateKey lat lon years =
     TextKey (''climate:'' @ lat @ '':'' @ lon @ '':'' @ decimal years)"

text \<open>
  A property value of a payload or response object. The forecast data of a payload is the
  upstream JSON document, the three properties copied from the lightweight document, or a
  generated mock; such documents are kept as their text.
\<close>

datatype forecast_data = Upstream string | Lightweight string | Mock string

datatype field =
    FUndefined
  | FNull
  | FBool bool
  | FNumber jsnum
  | FString string
  | FError js_error
  | FSeries series15
  | FMarine marine_json
  | FForecast forecast_data

type_synonym payload = "(string \<times> field) list"

text \<open>
  Modelled from the spec: the cache is the \<open>node-cache\<close> package, which is not part of
  the sources. Section 3 and 4.1 of the specification give its contract: an entry holds
  a value and the time \<open>expiresAt\<close> at which it expires, \<open>set(key, value, ttlSeconds)\<close>
  creates or overwrites the entry of the key, \<open>get(key)\<close> gives the value or nothing, and
  a read never returns a value whose \<open>expiresAt\<close> has passed. The cache is created with
  \<open>stdTTL: 60 * 10\<close>, the time to live of a \<open>set\<close> without one. Eviction of expired
  entries cannot be observed through \<open>get\<close> and is left out. Times are epoch
  milliseconds, and the handler's reads of the clock during one request give one value
  \<open>now\<close>.
\<close>

record cache_entry =
  c_value :: payload
  expiresAt :: int

type_synonym cache = "cache_key \<rightharpoonup> cache_entry"

definition stdTTL :: int where
  "stdTTL = 60 * 10"

text \<open>
  Modelled from the spec: \<open>get(key)\<close> of the \<open>node-cache\<close> package, missing from the
  sources. It gives the value of the entry of the key, and nothing when there is no entry
  or when its \<open>expiresAt\<close> has passed.
\<close>

definition cache_get :: "cache \<Rightarrow> int \<Rightarrow> cache_key \<Rightarrow> payload option" where
  "cache_get c now k =
     (case c k of
        None \<Rightarrow> None
      | Some e \<Rightarrow> if expiresAt e < now then None else Some (c_value e))"

text \<open>
  Modelled from the spec: \<open>set(key, value, ttlSeconds)\<close> of the \<open>node-cache\<close> package,
  missing from the sources. It replaces the entry of the key by one that expires
  \<open>ttlSeconds\<close> after \<open>now\<close>; \<open>None\<close> is a call without a time to live.
\<close>

definition cache_set :: "cache \<Rightarrow> int \<Rightarrow> cache_key \<Rightarrow> payload \<Rightarrow> int option \<Rightarrow> cache" where
  "cache_set c now k v ttl =
     c(k \<mapsto> \<lparr> c_value = v,
               expiresAt = now + (case ttl of None \<Rightarrow> stdTTL | Some t \<Rightarrow> t) * 1000 \<rparr>)"

section \<open>Request handlers\<close>

text \<open>
  A response: the status code and the object given to \<open>res.json\<close>. The object is kept as
  the handler built it; \<open>sent\<close> is what \<open>JSON.stringify\<close> makes of it on the wire.
\<close>

record response =
  status :: nat
  body :: payload

text \<open>\<open>{ ...payload, cached: b }\<close> and the like.\<close>

definition with_prop :: "payload \<Rightarrow> string \<Rightarrow> field \<Rightarrow> payload" where
  "with_prop p k v = AList.update k v p"

text \<open>
  \<open>JSON.stringify\<close>: a property whose value is \<open>undefined\<close> is dropped, an
  \<open>undefined\<close> array entry and a number that is not finite become \<open>null\<close>.
\<close>

fun json_entry :: "jsval \<Rightarrow> jsval" where
  "json_entry Undefined = Null"
| "json_entry v = v"

definition json_series :: "series15 \<Rightarrow> series15" where
  "json_series s =
     \<lparr> s_time = s_time s,
       s_wave_height = map json_entry (s_wave_height s),
       s_windspeed_10m = map json_entry (s_windspeed_10m s),
       s_shortwave_radiation = map json_entry (s_shortwave_radiation s),
       s_significant_wave_period = map json_entry (s_significant_wave_period s),
       s_swell_height = map json_entry (s_swell_height s) \<rparr>"

fun json_field :: "field \<Rightarrow> field" where
  "json_field (FSeries s) = FSeries (json_series s)"
| "json_field (FNumber (Fin x)) = FNumber (Fin x)"
| "json_field (FNumber n) = FNull"
| "json_field f = f"

definition sent :: "payload \<Rightarrow> payload" where
  "sent p = map (\<lambda>(k, v). (k, json_field v)) (filter (\<lambda>(k, v). v \<noteq> FUndefined) p)"

text \<open>The two replies of every \<open>catch\<close> block of the handlers.\<close>

definition error_response :: "js_error \<Rightarrow> response" where
  "error_response err =
     (if err = AbortError
      then \<lparr> status = 504, body = [(''error'', FString ''Upstream timed out'')] \<rparr>
      else \<lparr> status = 500, body = [(''error'', FString ''Internal server error''),
                                   (''details'', FError err)] \<rparr>)"

definition reply :: "nat \<Rightarrow> payload \<Rightarrow> response" where
  "reply st p = \<lparr> status = st, body = p \<rparr>"

subsection \<open>\<open>/api/marine\<close>\<close>

record marine_query =
  q_lat :: "string option"
  q_latitude :: "string option"
  q_lon :: "string option"
  q_longitude :: "string option"
  q_forecast_minutely_15 :: "string option"
  q_past_minutely_15 :: "string option"

text \<open>
  The two upstream requests of the handler: the second, with the safe set of variables,
  is made only when the first response is not ok. The result is the parsed document or
  the error thrown.
\<close>

definition marine_fetch ::
    "marine_json fetched \<Rightarrow> marine_json fetched \<Rightarrow> js_error + marine_json" where
  "marine_fetch first second =
     (case first of
        Threw e \<Rightarrow> Inl e
      | Resp st b \<Rightarrow>
          (if \<not> ok st then
             (case second of
                Threw e \<Rightarrow> Inl e
              | Resp st2 b2 \<Rightarrow>
                  (if \<not> ok st2 then Inl (Error ''Upstream failed: '' (Some st2))
                   else (case b2 of
                           None \<Rightarrow> Inl (Error ''invalid json response body'' None)
                         | Some j \<Rightarrow> Inr j)))
           else (case b of
                   None \<Rightarrow> Inl (Error ''invalid json response body'' None)
                 | Some j \<Rightarrow> Inr j)))"

text \<open>\<open>json.latitude || lat\<close>\<close>

definition num_or :: "real option \<Rightarrow> jsnum \<Rightarrow> jsnum" where
  "num_or a b = (case a of None \<Rightarrow> b | Some x \<Rightarrow> if x \<noteq> 0 then Fin x else b)"

definition marine_payload :: "marine_json \<Rightarrow> jsnum \<Rightarrow> jsnum \<Rightarrow> series15 option \<Rightarrow> payload" where
  "marine_payload json lat lon series =
     [(''latitude'', FNumber (num_or (j_latitude json) lat)),
      (''longitude'', FNumber (num_or (j_longitude json) lon)),
      (''source'', FMarine json),
      (''series15'', (case series of None \<Rightarrow> FNull | Some s \<Rightarrow> FSeries s))]"

definition marine_handler ::
    "cache \<Rightarrow> int \<Rightarrow> marine_query \<Rightarrow> marine_json fetched \<Rightarrow> marine_json fetched
      \<Rightarrow> response \<times> cache" where
  "marine_handler c now q first second =
     (let lat = parseFloat (js_or (q_lat q) (q_latitude q));
          lon = parseFloat (js_or (q_lon q) (q_longitude q))
      in if lat = NaN \<or> lon = NaN
         then (reply 400 [(''error'', FString ''Missing or invalid lat/lon'')], c)
         else
           (let forecastSteps = max0 (parseInt_or (q_forecast_minutely_15 q) ''96'');
                pastSteps = max0 (parseInt_or (q_past_minutely_15 q) ''0'');
                cacheKey = MarineKey lat lon forecastSteps pastSteps
            in case cache_get c now cacheKey of
                 Some cached \<Rightarrow> (reply 200 (with_prop cached ''cached'' (FBool True)), c)
               | None \<Rightarrow>
                   (case marine_fetch first second of
                      Inl err \<Rightarrow> (error_response err, c)
                    | Inr json \<Rightarrow>
                        (case resample json lat lon now pastSteps forecastSteps of
                           Inl u \<Rightarrow>
                             (error_response (Error ''Cannot read properties of undefined'' None),
                              c)
                         | Inr series \<Rightarrow>
                             (let payload = marine_payload json lat lon series
                              in (reply 200 (with_prop payload ''cached'' (FBool False)),
                                  cache_set c now cacheKey payload (Some (60 * 5))))))))"

subsection \<open>\<open>/api/forecast\<close>\<close>

text \<open>The string of a parameter that is known to be present.\<close>

definition string_of :: "string option \<Rightarrow> string" where
  "string_of a = (case a of None \<Rightarrow> [] | Some x \<Rightarrow> x)"

text \<open>\<open>trim\<close> and \<open>toLowerCase\<close>, on ASCII.\<close>

definition trim :: "string \<Rightarrow> string" where
  "trim s = rev (dropWhile is_space (rev (dropWhile is_space s)))"

definition lower_char :: "char \<Rightarrow> char" where
  "lower_char c =
     (if 65 \<le> (of_char c :: nat) \<and> (of_char c :: nat) \<le> 90
      then char_of ((of_char c :: nat) + 32) else c)"

definition toLowerCase :: "string \<Rightarrow> string" where
  "toLowerCase s = map lower_char s"

text \<open>An entry of the geocoder's result list.\<close>

record place =
  p_lat :: string
  p_lon :: string
  display_name :: "string option"

text \<open>
  The three upstream requests go through \<open>fetchWithRetries\<close>; the handler is given the
  outcome of each (\<open>outcome\<close> of its run), and it looks at the second and the third
  only where the source makes the request.
\<close>

text \<open>
  The \<open>try\<close> block around a forecast request: the forecast data, or nothing when the
  request threw, the response was not ok or its body was no JSON.
\<close>

definition forecast_attempt :: "(string \<Rightarrow> forecast_data) \<Rightarrow> string fetched
    \<Rightarrow> forecast_data option" where
  "forecast_attempt shape r =
     (case r of
        Threw e \<Rightarrow> None
      | Resp st b \<Rightarrow> (if \<not> ok st then None else map_option shape b))"

definition opt_string :: "string option \<Rightarrow> field" where
  "opt_string a = (case a of None \<Rightarrow> FUndefined | Some x \<Rightarrow> FString x)"

text \<open>\<open>display_name || city\<close>\<close>

definition name_or :: "string option \<Rightarrow> string \<Rightarrow> string" where
  "name_or a city = (if \<not> falsy a then string_of a else city)"

text \<open>
  \<open>use_mock\<close> is \<open>process.env.USE_MOCK === 'true'\<close>, and \<open>generateMockForecast\<close> the
  result of that function for its two arguments at this request: it reads the clock and
  \<open>Math.random()\<close>, so its value differs from one request to the next. It reads its
  arguments through \<open>parseFloat\<close> only, and the call \<open>generateMockForecast(0, 0)\<close>
  is given the strings of the two numbers.
\<close>

definition forecast_handler ::
    "cache \<Rightarrow> int \<Rightarrow> bool \<Rightarrow> (string \<Rightarrow> string \<Rightarrow> string) \<Rightarrow> string option
      \<Rightarrow> place list fetched \<Rightarrow> string fetched \<Rightarrow> string fetched
      \<Rightarrow> response \<times> cache" where
  "forecast_handler c now use_mock generateMockForecast q_city nom met lw =
     (let city = trim (string_of (js_or q_city (Some [])))
      in if city = []
         then (reply 400 [(''error'', FString ''Missing city query parameter'')], c)
         else
           (let cacheKey = ForecastKey (toLowerCase city)
            in case cache_get c now cacheKey of
                 Some cached \<Rightarrow> (reply 200 (with_prop cached ''cached'' (FBool True)), c)
               | None \<Rightarrow>
                   (if use_mock then
                      (let mock = generateMockForecast ''0'' ''0'';
                           payload = [(''location'', FString city), (''lat'', FNumber (Fin 0)),
                                      (''lon'', FNumber (Fin 0)),
                                      (''forecast'', FForecast (Mock mock))]
                       in (reply 200 (with_prop (with_prop payload ''cached'' (FBool False))
                                        ''mock'' (FBool True)), c))
                    else
                      (case nom of
                         Threw e \<Rightarrow> (error_response e, c)
                       | Resp st b \<Rightarrow>
                           (if \<not> ok st
                            then (error_response (Error ''Nominatim failed: '' (Some st)), c)
                            else
                              (case b of
                                 None \<Rightarrow>
                                   (error_response (Error ''invalid json response body'' None),
                                    c)
                               | Some [] \<Rightarrow>
                                   (reply 404 [(''error'', FString ''Location not found'')], c)
                               | Some (pl # rest) \<Rightarrow>
                                   (case (case forecast_attempt Upstream met of
                                            Some d \<Rightarrow> Some d
                                          | None \<Rightarrow> forecast_attempt Lightweight lw) of
                                      Some metData \<Rightarrow>
                                        (let payload =
                                               [(''location'', opt_string (display_name pl)),
                                                (''lat'', FString (p_lat pl)),
                                                (''lon'', FString (p_lon pl)),
                                                (''forecast'', FForecast metData)]
                                         in (reply 200
                                               (with_prop payload ''cached'' (FBool False)),
                                             cache_set c now cacheKey payload None))
                                    | None \<Rightarrow>
                                        (let metData =
                                               Mock (generateMockForecast (p_lat pl) (p_lon pl));
                                             payload =
                                               [(''location'',
                                                 FString (name_or (display_name pl) city)),
                                                (''lat'', FString (p_lat pl)),
                                                (''lon'', FString (p_lon pl)),
                                                (''forecast'', FForecast metData)]
                                         in (reply 200
                                               (with_prop
                                                  (with_prop payload ''cached'' (FBool False))
                                                  ''mock'' (FBool True)), c)))))))))"

subsection \<open>\<open>/api/air-quality\<close> and \<open>/api/climate\<close>\<close>

text \<open>
  Of the \<open>try\<close> block of these two handlers, between the cache miss and \<open>cache.set\<close>, the
  model keeps the outcome: an error thrown (by the request, or for a response that is
  not ok), an early reply (the 502 replies of the climate handler), or the properties
  computed from the upstream document.
\<close>

datatype computed = Thrown js_error | Early nat string | Props payload

definition aq_handler ::
    "cache \<Rightarrow> int \<Rightarrow> string option \<Rightarrow> string option \<Rightarrow> string option \<Rightarrow> string option
      \<Rightarrow> computed \<Rightarrow> response \<times> cache" where
  "aq_handler c now the_lat the_latitude the_lon the_longitude work =
     (let lat = js_or the_lat the_latitude; lon = js_or the_lon the_longitude
      in if falsy lat \<or> falsy lon
         then (reply 400 [(''error'', FString ''Missing lat and/or lon query parameters'')], c)
         else
           (let cacheKey = AqKey (string_of lat) (string_of lon)
            in case cache_get c now cacheKey of
                 Some cached \<Rightarrow> (reply 200 (with_prop cached ''cached'' (FBool True)), c)
               | None \<Rightarrow>
                   (case work of
                      Thrown err \<Rightarrow> (error_response err, c)
                    | Early st msg \<Rightarrow> (reply st [(''error'', FString msg)], c)
                    | Props sample_category \<Rightarrow>
                        (let payload = [(''lat'', FString (string_of lat)),
                                        (''lon'', FString (string_of lon))]
                                       @ sample_category
                                       @ [(''source'', FString ''open-meteo'')]
                         in (reply 200 (with_prop payload ''cached'' (FBool False)),
                             cache_set c now cacheKey payload (Some (60 * 5)))))))"

text \<open>\<open>parseInt(req.query.years || '30', 10) || 30\<close>, then the clamp to 10..100.\<close>

definition clampYears :: "string option \<Rightarrow> int" where
  "clampYears the_years =
     (let years = (case parseInt_or the_years ''30'' of
                     None \<Rightarrow> 30
                   | Some n \<Rightarrow> if n = 0 then 30 else n)
      in min (max years 10) 100)"

definition climate_handler ::
    "cache \<Rightarrow> int \<Rightarrow> string option \<Rightarrow> string option \<Rightarrow> string option \<Rightarrow> string option
      \<Rightarrow> string option \<Rightarrow> computed \<Rightarrow> response \<times> cache" where
  "climate_handler c now the_lat the_latitude the_lon the_longitude the_years work =
     (let lat = js_or the_lat the_latitude; lon = js_or the_lon the_longitude
      in if falsy lat \<or> falsy lon
         then (reply 400 [(''error'', FString ''Missing lat and/or lon query parameters'')], c)
         else
           (let cacheKey = ClimateKey (string_of lat) (string_of lon) (clampYears the_years)
            in case cache_get c now cacheKey of
                 Some cached \<Rightarrow> (reply 200 (with_prop cached ''cached'' (FBool True)), c)
               | None \<Rightarrow>
                   (case work of
                      Thrown err \<Rightarrow> (error_response err, c)
                    | Early st msg \<Rightarrow> (reply st [(''error'', FString msg)], c)
                    | Props payload \<Rightarrow>
                        (reply 200 (with_prop payload ''cached'' (FBool False)),
                         cache_set c now cacheKey payload (Some (60 * 60 * 24))))))"

section \<open>The stated policies, and inputs for the examples\<close>




text \<open>Two hourly points, 10 at \<open>t = 0\<close> and 20 at \<open>t = 60 min\<close>, with a wave period.\<close>

definition two_hours :: hourly where
  "two_hours =
     \<lparr> time = [0, 3600000], wave_height = [Some 10, Some 20],
       windspeed_10m = [Some 10, None], shortwave_radiation = [],
       significant_wave_period = [Some 5, Some 6], swell_height = [None, Some 1] \<rparr>"

text \<open>
  The grid of the interpolation path: the time stamps \<open>t\<close>, \<open>t + stepMs\<close>, ... that
  do not exceed \<open>e\<close>.
\<close>

definition grid :: "int \<Rightarrow> int \<Rightarrow> int list" where
  "grid t e = map (\<lambda>k. t + int k * stepMs) [0..<nat ((e - t) div stepMs + 1)]"






definition tally :: "buckets \<Rightarrow> int \<Rightarrow> real \<times> nat" where
  "tally bs k = (case map_of bs k of None \<Rightarrow> (0, 0) | Some b \<Rightarrow> (b_sum b, b_count b))"

definition bucket_value :: "buckets \<Rightarrow> int \<Rightarrow> jsval" where
  "bucket_value bs k =
     (if snd (tally bs k) \<noteq> 0 then Num (fst (tally bs k) / real (snd (tally bs k))) else Null)"

text \<open>Minutely samples around \<open>t = 15 min\<close>, one of them without a value.\<close>

definition some_minutes :: minutely where
  "some_minutes =
     \<lparr> m_time = Some [1800000, 900000, 1000000, 99000000],
       m_shortwave_radiation = Some [Some 4, Some 1, None], m_other_keys = 0 \<rparr>"

text \<open>
  Upstream documents without and with minutely data, a query with the four parameters
  \<open>lat\<close>, \<open>lon\<close>, \<open>forecast_minutely_15\<close> and \<open>past_minutely_15\<close>, and two series of the
  bucket aggregation.
\<close>

definition hourly_doc :: marine_json where
  "hourly_doc = \<lparr> j_latitude = Some 0, j_longitude = Some 0, j_minutely = None,
                   j_hourly = Some two_hours \<rparr>"

definition minutely_doc :: marine_json where
  "minutely_doc = \<lparr> j_latitude = Some 50, j_longitude = Some 10,
                     j_minutely = Some some_minutes, j_hourly = Some two_hours \<rparr>"

definition marine_query_of :: "string \<Rightarrow> string \<Rightarrow> string \<Rightarrow> string \<Rightarrow> marine_query" where
  "marine_query_of la lo f p =
     \<lparr> q_lat = Some la, q_latitude = None, q_lon = Some lo, q_longitude = None,
       q_forecast_minutely_15 = Some f, q_past_minutely_15 = Some p \<rparr>"

definition bucket_series :: series15 where
  "bucket_series =
     \<lparr> s_time = [900000], s_wave_height = [], s_windspeed_10m = [],
       s_shortwave_radiation = [Num 1], s_significant_wave_period = [], s_swell_height = [] \<rparr>"

definition bucket_series2 :: series15 where
  "bucket_series2 =
     \<lparr> s_time = [900000, 1800000], s_wave_height = [], s_windspeed_10m = [],
       s_shortwave_radiation = [Num (1 / 2), Num 4], s_significant_wave_period = [],
       s_swell_height = [] \<rparr>"

text \<open>
  The cache key of a request, as each handler computes it from the query parameters
  before it reads the cache.
\<close>

definition forecast_cacheKey :: "string option \<Rightarrow> cache_key" where
  "forecast_cacheKey q_city =
     ForecastKey (toLowerCase (trim (string_of (js_or q_city (Some [])))))"

definition aq_cacheKey ::
    "string option \<Rightarrow> string option \<Rightarrow> string option \<Rightarrow> string option \<Rightarrow> cache_key" where
  "aq_cacheKey the_lat the_latitude the_lon the_longitude =
     AqKey (string_of (js_or the_lat the_latitude)) (string_of (js_or the_lon the_longitude))"

definition climate_cacheKey ::
    "string option \<Rightarrow> string option \<Rightarrow> string option \<Rightarrow> string option \<Rightarrow> string option
      \<Rightarrow> cache_key" where
  "climate_cacheKey the_lat the_latitude the_lon the_longitude the_years =
     ClimateKey (string_of (js_or the_lat the_latitude)) (string_of (js_or the_lon the_longitude))
       (clampYears the_years)"

definition marine_cacheKey :: "marine_query \<Rightarrow> cache_key" where
  "marine_cacheKey q =
     MarineKey (parseFloat (js_or (q_lat q) (q_latitude q)))
       (parseFloat (js_or (q_lon q) (q_longitude q)))
       (max0 (parseInt_or (q_forecast_minutely_15 q) ''96''))
       (max0 (parseInt_or (q_past_minutely_15 q) ''0''))"

text \<open>
  A marine request that writes the coordinates and the steps of
  \<open>marine_query_of ''0'' ''0'' ''0'' ''0''\<close> in another way.
\<close>

definition marine_query_alt :: marine_query where
  "marine_query_alt =
     \<lparr> q_lat = None, q_latitude = Some ''0.0'', q_lon = Some [], q_longitude = Some ''-0e3'',
       q_forecast_minutely_15 = Some ''-7'', q_past_minutely_15 = None \<rparr>"

text \<open>
  The retry policy in the words of the specification: an attempt is retried after a
  network-level failure or a response with a status of 500 or more. \<open>failure_of\<close> is the
  error such an attempt leaves in \<open>lastErr\<close>.
\<close>

definition retryable :: "'b fetched \<Rightarrow> bool" where
  "retryable x = (case x of Threw e \<Rightarrow> True | Resp st b \<Rightarrow> st \<ge> 500)"

definition failure_of :: "'b fetched \<Rightarrow> js_error" where
  "failure_of x = (case x of Threw e \<Rightarrow> e | Resp st b \<Rightarrow> Error ''Upstream responded '' (Some st))"

text \<open>The delays slept before the retries \<open>a, ..., b\<close> (counted from 1).\<close>

definition backoff_delays :: "real \<Rightarrow> (nat \<Rightarrow> real) \<Rightarrow> int \<Rightarrow> int \<Rightarrow> jsnum list" where
  "backoff_delays backoffBase rand a b =
     map (\<lambda>n. backoff_delay backoffBase n (rand (nat (n - 1)))) [a..b]"

text \<open>An upstream that always answers 503, and draws of \<open>Math.random()\<close>.\<close>

definition always_503 :: "nat \<Rightarrow> unit fetched" where
  "always_503 k = Resp 503 None"

definition always_404 :: "nat \<Rightarrow> unit fetched" where
  "always_404 k = Resp 404 None"

definition draws_0 :: "nat \<Rightarrow> real" where
  "draws_0 k = 0"

definition draws_quarter :: "nat \<Rightarrow> real" where
  "draws_quarter k = 1 / 4"

text \<open>
  The body of a mock reply of the forecast handler, and the condition under which the
  two fallback requests count as failed.
\<close>

definition mock_body :: "field \<Rightarrow> field \<Rightarrow> field \<Rightarrow> string \<Rightarrow> payload" where
  "mock_body loc la lo m =
     [(''location'', loc), (''lat'', la), (''lon'', lo), (''forecast'', FForecast (Mock m)),
      (''cached'', FBool False), (''mock'', FBool True)]"

definition both_failed :: "string fetched \<Rightarrow> string fetched \<Rightarrow> bool" where
  "both_failed met lw =
     (forecast_attempt Upstream met = None \<and> forecast_attempt Lightweight lw = None)"

text \<open>
  Two results of the mock generator, an entry of the geocoder for Dhaka and the payload
  the forecast handler builds from it.
\<close>

definition first_mock :: "string \<Rightarrow> string \<Rightarrow> string" where
  "first_mock la lo = ''{temperature: 14.2}''"

definition second_mock :: "string \<Rightarrow> string \<Rightarrow> string" where
  "second_mock la lo = ''{temperature: 15.1}''"

definition dhaka :: place where
  "dhaka = \<lparr> p_lat = ''23.76'', p_lon = ''90.38'', display_name = Some ''Dhaka, Bangladesh'' \<rparr>"

definition dhaka_payload :: payload where
  "dhaka_payload =
     [(''location'', FString ''Dhaka, Bangladesh''), (''lat'', FString ''23.76''),
      (''lon'', FString ''90.38''), (''forecast'', FForecast (Upstream ''{}''))]"

section \<open>Properties of the interpolation\<close>






lemma get_prop_wws:
  "get_prop (wws a b c) ''wave'' = a" "get_prop (wws a b c) ''wind'' = b" "get_prop (wws a b c)
      ''sw'' = c"
  "get_prop (wws a b c) ''period'' = Undefined" "get_prop (wws a b c) ''swell'' = Undefined"
  by (simp_all add: get_prop_def wws_def)



section \<open>The output grid of the interpolation path\<close>

lemma stepMs_pos: "0 < stepMs"
  by (simp add: stepMs_def)

lemma grid_empty: "\<not> t \<le> e \<Longrightarrow> grid t e = []"
proof -
  assume "\<not> t \<le> e"
  then have "e - t < 0" by simp
  then have "(e - t) div stepMs < 0"
    using stepMs_pos by (simp add: pos_imp_zdiv_neg_iff)
  then show ?thesis by (simp add: grid_def)
qed

lemma grid_step: "t \<le> e \<Longrightarrow> grid t e = t # grid (t + stepMs) e"
proof -
  assume le: "t \<le> e"
  have d: "(e - (t + stepMs)) div stepMs = (e - t) div stepMs - 1"
    using stepMs_pos div_add_self2[of stepMs "e - (t + stepMs)"] by (simp add: algebra_simps)
  have nn: "0 \<le> (e - t) div stepMs"
    using le stepMs_pos by (simp add: pos_imp_zdiv_nonneg_iff)
  then have n: "nat ((e - t) div stepMs + 1) = Suc (nat ((e - (t + stepMs)) div stepMs + 1))"
    by (simp add: d)
  show ?thesis
    unfolding grid_def n
    by (simp add: map_upt_Suc algebra_simps del: upt_Suc)
qed

lemma grid_loop_fields:
  "grid_loop points t e s =
     \<lparr> s_time = s_time s @ grid t e,
       s_wave_height = s_wave_height s @ map (\<lambda>x. get_prop (interp points x) ''wave'') (grid t e),
       s_windspeed_10m = s_windspeed_10m s @ map (\<lambda>x. get_prop (interp points x) ''wind'') (grid
           t e),
       s_shortwave_radiation = s_shortwave_radiation s @ map (\<lambda>x. get_prop (interp points x)
           ''sw'') (grid t e),
       s_significant_wave_period = s_significant_wave_period s @ map (\<lambda>x. get_prop (interp
           points x) ''period'') (grid t e),
       s_swell_height = s_swell_height s @ map (\<lambda>x. get_prop (interp points x) ''swell'') (grid
           t e) \<rparr>"
proof (induction points t e s rule: grid_loop.induct)
  case (1 points t e s)
  show ?case
  proof (cases "t \<le> e")
    case True
    then have "grid_loop points t e s = grid_loop points (t + stepMs) e (push_interp points t s)"
      by (subst grid_loop.simps) simp
    also note "1.IH"[OF True]
    finally show ?thesis
      by (simp add: grid_step[OF True] push_interp_def Let_def)
  next
    case False
    then have "grid_loop points t e s = s"
      by (subst grid_loop.simps) simp
    then show ?thesis by (simp add: grid_empty[OF False])
  qed
qed

lemma grid_sorted: "sorted_wrt (<) (grid t e)"
proof -
  have "sorted_wrt (\<lambda>x y. t + int x * stepMs < t + int y * stepMs) [0..<n]" for n
    by (rule sorted_wrt_mono_rel[OF _ sorted_wrt_upt]) (simp add: stepMs_pos)
  then show ?thesis by (simp add: grid_def sorted_wrt_map)
qed

lemma grid_window_length:
  "length (grid (now - p * stepMs) (now + f * stepMs)) = nat (p + f + 1)"
proof -
  have "now + f * stepMs - (now - p * stepMs) = (p + f) * stepMs"
    by (simp add: algebra_simps)
  then show ?thesis using stepMs_pos by (simp add: grid_def)
qed

lemma interpolate_series_fields:
  "interpolate_series h now p f =
     \<lparr> s_time = grid (now - p * stepMs) (now + f * stepMs),
       s_wave_height = map (\<lambda>x. get_prop (interp (build_points h) x) ''wave'')
                         (grid (now - p * stepMs) (now + f * stepMs)),
       s_windspeed_10m = map (\<lambda>x. get_prop (interp (build_points h) x) ''wind'')
                         (grid (now - p * stepMs) (now + f * stepMs)),
       s_shortwave_radiation = map (\<lambda>x. get_prop (interp (build_points h) x) ''sw'')
                         (grid (now - p * stepMs) (now + f * stepMs)),
       s_significant_wave_period = map (\<lambda>x. get_prop (interp (build_points h) x) ''period'')
                         (grid (now - p * stepMs) (now + f * stepMs)),
       s_swell_height = map (\<lambda>x. get_prop (interp (build_points h) x) ''swell'')
                         (grid (now - p * stepMs) (now + f * stepMs)) \<rparr>"
  by (simp add: interpolate_series_def Let_def grid_loop_fields empty_series_def)


lemma two_hours_points:
  "build_points two_hours =
     [\<lparr> ts = 0, wave = Num 10, wind = Num 10, sw = Null, period = Num 5, swell = Null \<rparr>,
      \<lparr> ts = 3600000, wave = Num 20, wind = Null, sw = Null, period = Num 6,
        swell = Num 1 \<rparr>]"
  by (simp add: two_hours_def build_points_def mk_point_def js_nth_def num_or_null_def upt_rec)

lemma two_hours_bracket: "find_bracket (build_points two_hours) 900000 0 = 0"
  by (subst find_bracket.simps) (simp add: two_hours_points)



lemma interp_keys: "map fst (interp points t) = [''wave'', ''wind'', ''sw'']"
  by (simp add: interp_def Let_def wws_def)

lemma get_prop_missing: "k \<notin> set (map fst obj) \<Longrightarrow> get_prop obj k = Undefined"
proof -
  assume "k \<notin> set (map fst obj)"
  then have "map_of obj k = None" by (simp add: map_of_eq_None_iff)
  then show ?thesis by (simp add: get_prop_def)
qed

lemma interp_no_period: "get_prop (interp points t) ''period'' = Undefined"
  by (rule get_prop_missing) (simp add: interp_keys)

lemma interp_no_swell: "get_prop (interp points t) ''swell'' = Undefined"
  by (rule get_prop_missing) (simp add: interp_keys)

text \<open>
  Claim C10. In the interpolation path the arrays \<open>significant_wave_period\<close> and
  \<open>swell_height\<close> never hold a value derived from the hourly data: the object that
  \<open>interp\<close> returns has the properties \<open>wave\<close>, \<open>wind\<close> and \<open>sw\<close> only, so the entry
  pushed for every grid time stamp, of which there are \<open>pastSteps + forecastSteps + 1\<close>,
  is \<open>undefined\<close>, whatever the hourly arrays hold.
\<close>

theorem interp_drops_period_and_swell:
  "map fst (interp points t) = [''wave'', ''wind'', ''sw''] \<and>
   length (s_time (interpolate_series h now pastSteps forecastSteps))
     = nat (pastSteps + forecastSteps + 1) \<and>
   s_significant_wave_period (interpolate_series h now pastSteps forecastSteps)
     = replicate (nat (pastSteps + forecastSteps + 1)) Undefined \<and>
   s_swell_height (interpolate_series h now pastSteps forecastSteps)
     = replicate (nat (pastSteps + forecastSteps + 1)) Undefined"
  by (simp add: interp_keys interpolate_series_fields interp_no_period interp_no_swell
        map_replicate_const grid_window_length)

theorem interp_drops_period_and_swell_witness:
  "significant_wave_period two_hours = [Some 5, Some 6] \<and>
   swell_height two_hours = [None, Some 1] \<and>
   s_significant_wave_period (interpolate_series two_hours 0 0 2)
     = [Undefined, Undefined, Undefined] \<and>
   s_swell_height (interpolate_series two_hours 0 0 2) = [Undefined, Undefined, Undefined]"
  using interp_drops_period_and_swell[of "build_points two_hours" 0 two_hours 0 0 2]
  by (simp add: two_hours_def numeral_3_eq_3)

lemma interp_clamped_low:
  assumes "points \<noteq> []" and "t \<le> ts (points ! 0)"
  shows "get_prop (interp points t) ''wave'' = wave (points ! 0)"
    and "get_prop (interp points t) ''wind'' = wind (points ! 0)"
    and "get_prop (interp points t) ''sw'' = sw (points ! 0)"
  using assms by (simp_all add: interp_def get_prop_wws)

lemma interp_clamped_high:
  assumes "points \<noteq> []" and "ts (points ! 0) < t" and "t \<ge> ts (points ! (length points - 1))"
  shows "get_prop (interp points t) ''wave'' = wave (points ! (length points - 1))"
    and "get_prop (interp points t) ''wind'' = wind (points ! (length points - 1))"
    and "get_prop (interp points t) ''sw'' = sw (points ! (length points - 1))"
  using assms by (simp_all add: interp_def get_prop_wws)

text \<open>
  Claim C4. At a grid time stamp at or before the first hourly point, or at or after the
  last, every output variable is to equal the value of that point. The two lemmas above
  show it for \<open>wave_height\<close>, \<open>windspeed_10m\<close> and \<open>shortwave_radiation\<close>. For
  \<open>significant_wave_period\<close> and \<open>swell_height\<close> the code does not: with a first
  point at \<open>t = 0\<close> whose period is 5, the entries at the grid times \<open>-15 min\<close> and \<open>0\<close>
  are \<open>undefined\<close>, and with a last point at \<open>t = 60 min\<close> whose swell is 1 the entry at
  \<open>60 min\<close> is \<open>undefined\<close>, and in a window of one step from there the entry at
  \<open>75 min\<close> as well.
\<close>

theorem clamped_period_is_undefined:
  "ts (build_points two_hours ! 0) = 0 \<and>
   period (build_points two_hours ! 0) = Num 5 \<and>
   swell (build_points two_hours ! 1) = Num 1 \<and>
   s_time (interpolate_series two_hours 0 1 1) = [- 900000, 0, 900000] \<and>
   s_wave_height (interpolate_series two_hours 0 1 1) = [Num 10, Num 10, Num 12.5] \<and>
   s_significant_wave_period (interpolate_series two_hours 0 1 1)
     = [Undefined, Undefined, Undefined] \<and>
   s_swell_height (interpolate_series two_hours 3600000 0 0) = [Undefined] \<and>
   s_time (interpolate_series two_hours 3600000 0 1) = [3600000, 4500000] \<and>
   s_wave_height (interpolate_series two_hours 3600000 0 1) = [Num 20, Num 20] \<and>
   s_swell_height (interpolate_series two_hours 3600000 0 1) = [Undefined, Undefined]"
proof -
  have g1: "grid (- stepMs) stepMs = [- 900000, 0, 900000]"
    by (simp add: grid_def stepMs_def upt_rec numeral_3_eq_3)
  have g2: "grid 3600000 3600000 = [3600000]"
    by (simp add: grid_def)
  have g3: "grid 3600000 (3600000 + stepMs) = [3600000, 4500000]"
    by (simp add: grid_def stepMs_def upt_rec numeral_2_eq_2)
  have w4: "get_prop (interp (build_points two_hours) 3600000) ''wave'' = Num 20"
    and w5: "get_prop (interp (build_points two_hours) 4500000) ''wave'' = Num 20"
    by (simp_all add: interp_clamped_high two_hours_points)
  have w1: "get_prop (interp (build_points two_hours) (- 900000)) ''wave'' = Num 10"
    and w2: "get_prop (interp (build_points two_hours) 0) ''wave'' = Num 10"
    by (simp_all add: interp_clamped_low two_hours_points)
  have w3: "get_prop (interp (build_points two_hours) 900000) ''wave'' = Num 12.5"
    by (simp add: interp_def Let_def two_hours_bracket get_prop_wws)
       (simp add: two_hours_points mix_def)
  show ?thesis
    by (simp add: interpolate_series_fields g1 g2 g3 w1 w2 w3 w4 w5 interp_no_period
          interp_no_swell)
       (simp add: two_hours_points)
qed

section \<open>Bucket aggregation\<close>


lemma add_sample_distinct:
  "distinct (map fst acc) \<Longrightarrow> distinct (map fst (add_sample st en x acc))"
  by (simp add: add_sample_def Let_def distinct_update)



lemma fold_add_sample_distinct:
  "distinct (map fst acc) \<Longrightarrow> distinct (map fst (fold (add_sample st en) xs acc))"
  by (induction xs arbitrary: acc) (simp_all add: add_sample_distinct)


lemma emit_buckets_fields:
  "set ks \<subseteq> fst ` set bs \<Longrightarrow>
   emit_buckets bs ks s =
     Some (s\<lparr> s_time := s_time s @ ks,
              s_shortwave_radiation := s_shortwave_radiation s @ map (bucket_value bs) ks \<rparr>)"
proof (induction ks arbitrary: s)
  case Nil
  then show ?case by simp
next
  case (Cons k ks)
  from Cons.prems have "k \<in> fst ` set bs" by simp
  then obtain b where b: "map_of bs k = Some b"
    by (metis map_of_eq_None_iff not_Some_eq)
  from Cons.prems have "set ks \<subseteq> fst ` set bs" by simp
  from Cons.IH[OF this] b show ?case
    by (simp add: bucket_value_def tally_def)
qed




lemma aggregate_series_fields:
  "aggregate_series m now pastSteps forecastSteps =
     Some \<lparr> s_time = bucket_keys (fill_buckets m (opt_sub now pastSteps) (opt_add now
         forecastSteps)),
            s_wave_height = [], s_windspeed_10m = [],
            s_shortwave_radiation =
              map (bucket_value (fill_buckets m (opt_sub now pastSteps) (opt_add now
                  forecastSteps)))
                (bucket_keys (fill_buckets m (opt_sub now pastSteps) (opt_add now forecastSteps))),
            s_significant_wave_period = [], s_swell_height = [] \<rparr>"
  by (simp add: aggregate_series_def Let_def emit_buckets_fields bucket_keys_def empty_series_def)


lemma bucket_keys_sorted: "sorted_wrt (<) (bucket_keys (fill_buckets m st en))"
  by (simp add: bucket_keys_def fill_buckets_def strict_sorted_iff fold_add_sample_distinct)







section \<open>The marine handler\<close>

lemma resample_total: "resample json lat lon now ps fs \<noteq> Inl ()"
  by (auto simp: resample_def hasMinutely_def aggregate_series_fields split: option.split)

lemma resample_shape:
  assumes "resample json lat lon now ps fs = Inr (Some s)"
  shows "sorted_wrt (<) (s_time s) \<and> length (s_shortwave_radiation s) = length (s_time s) \<and>
     (if hasMinutely json \<and> inSupportedRegion lat lon
      then s_wave_height s = [] \<and> s_windspeed_10m s = [] \<and>
           s_significant_wave_period s = [] \<and> s_swell_height s = []
      else length (s_wave_height s) = length (s_time s) \<and>
           length (s_windspeed_10m s) = length (s_time s) \<and>
           length (s_significant_wave_period s) = length (s_time s) \<and>
           length (s_swell_height s) = length (s_time s))"
proof (cases "hasMinutely json \<and> inSupportedRegion lat lon")
  case True
  then obtain m where m: "j_minutely json = Some m"
    by (auto simp: hasMinutely_def split: option.splits)
  from assms True m have "aggregate_series m now ps fs = Some s"
    by (auto simp: resample_def split: option.splits)
  then show ?thesis using True
    by (auto simp: aggregate_series_fields bucket_keys_sorted)
next
  case False
  with assms obtain h p f where "s = interpolate_series h now p f"
    by (auto simp: resample_def split: option.splits if_splits)
  then show ?thesis using False
    by (auto simp: interpolate_series_fields grid_sorted)
qed

lemma marine_status_400:
  "status (fst (marine_handler c now q first second)) = 400 \<longleftrightarrow>
     parseFloat (js_or (q_lat q) (q_latitude q)) = NaN \<or>
     parseFloat (js_or (q_lon q) (q_longitude q)) = NaN"
  by (auto simp: marine_handler_def Let_def reply_def error_response_def
           split: option.split sum.split)

text \<open>
  Claim C6, as stated, fails in the bucket-aggregation path: for coordinates inside the
  European box and upstream minutely data, the series has two time stamps and an
  empty \<open>wave_height\<close> array.
\<close>

theorem bucket_series_arrays_counterexample:
  "resample minutely_doc (Fin 50) (Fin 10) 900000 (Some 0) (Some 2) = Inr (Some bucket_series2) \<and>
   length (s_wave_height bucket_series2) \<noteq> length (s_time bucket_series2)"
  by code_simp

text \<open>
  Claim C6, amended. Resampling raises no exception, and every series it produces has
  strictly increasing time stamps and a \<open>shortwave_radiation\<close> array of the length of
  \<open>time\<close>. In the interpolation path the arrays \<open>wave_height\<close>, \<open>windspeed_10m\<close>,
  \<open>significant_wave_period\<close> and \<open>swell_height\<close> have that length too; in the
  bucket-aggregation path these four arrays are empty.
\<close>

theorem series_arrays:
  "\<exists>r. resample json lat lon now pastSteps forecastSteps = Inr r \<and>
     (\<forall>s. r = Some s \<longrightarrow>
        sorted_wrt (<) (s_time s) \<and>
        length (s_shortwave_radiation s) = length (s_time s) \<and>
        (if hasMinutely json \<and> inSupportedRegion lat lon
         then s_wave_height s = [] \<and> s_windspeed_10m s = [] \<and>
              s_significant_wave_period s = [] \<and> s_swell_height s = []
         else length (s_wave_height s) = length (s_time s) \<and>
              length (s_windspeed_10m s) = length (s_time s) \<and>
              length (s_significant_wave_period s) = length (s_time s) \<and>
              length (s_swell_height s) = length (s_time s)))"
proof -
  obtain r where r: "resample json lat lon now pastSteps forecastSteps = Inr r"
    using resample_total[of json lat lon now pastSteps forecastSteps]
    by (cases "resample json lat lon now pastSteps forecastSteps") auto
  show ?thesis using r resample_shape[of json lat lon now pastSteps forecastSteps] by blast
qed

lemma hourly_doc_resample:
  "resample hourly_doc (Fin 0) (Fin 0) 0 (Some 0) (Some 2)
     = Inr (Some (interpolate_series two_hours 0 0 2))"
  by (simp add: resample_def hourly_doc_def hasMinutely_def wantMinutely15_def)

theorem series_arrays_witness:
  "\<not> hasMinutely hourly_doc \<and>
   resample hourly_doc (Fin 0) (Fin 0) 0 (Some 0) (Some 2)
     = Inr (Some (interpolate_series two_hours 0 0 2)) \<and>
   sorted_wrt (<) (s_time (interpolate_series two_hours 0 0 2)) \<and>
   length (s_swell_height (interpolate_series two_hours 0 0 2)) = 3 \<and>
   length (s_time (interpolate_series two_hours 0 0 2)) = 3"
proof -
  have n: "length (grid 0 (2 * stepMs)) = 3"
    using grid_window_length[of 0 0 2] by simp
  show ?thesis
    using series_arrays[of hourly_doc "Fin 0" "Fin 0" 0 "Some 0" "Some 2"]
    by (simp add: hourly_doc_resample)
       (simp add: hourly_doc_def hasMinutely_def interpolate_series_fields n)
qed

text \<open>
  Claim C9. The handler replies 400 exactly when \<open>parseFloat\<close> of the latitude or of the
  longitude parameter (\<open>lat || latitude\<close>, \<open>lon || longitude\<close>) is \<open>NaN\<close>; that is so
  for a missing parameter and not for the string \<open>0\<close>, so \<open>lat=0&lon=0\<close> is accepted.
\<close>

theorem marine_coordinate_validation:
  "(status (fst (marine_handler c now q first second)) = 400 \<longleftrightarrow>
      parseFloat (js_or (q_lat q) (q_latitude q)) = NaN \<or>
      parseFloat (js_or (q_lon q) (q_longitude q)) = NaN) \<and>
   parseFloat (js_or None None) = NaN \<and>
   parseFloat (js_or (Some ''0'') None) = Fin 0 \<and>
   status (fst (marine_handler c now (marine_query_of ''0'' ''0'' f p) first second)) \<noteq> 400"
proof -
  have z: "parseFloat (js_or (Some ''0'') x) = Fin 0" for x
    by code_simp
  have m: "parseFloat (js_or None None) = NaN"
    by code_simp
  show ?thesis
    by (simp add: marine_status_400 z m marine_query_of_def)
qed

theorem marine_coordinate_validation_witness:
  "status (fst (marine_handler Map.empty 0 (marine_query_of ''0'' ''0'' ''0'' ''0'')
                  (Resp 200 (Some hourly_doc)) (Threw AbortError))) = 200 \<and>
   status (fst (marine_handler Map.empty 0 (marine_query_of ''north'' ''0'' ''0'' ''0'')
                  (Resp 200 (Some hourly_doc)) (Threw AbortError))) = 400 \<and>
   status (fst (marine_handler Map.empty 0
                  \<lparr> q_lat = None, q_latitude = None, q_lon = Some ''0'', q_longitude = None,
                    q_forecast_minutely_15 = None, q_past_minutely_15 = None \<rparr>
                  (Resp 200 (Some hourly_doc)) (Threw AbortError))) = 400"
proof -
  have a: "status (fst (marine_handler Map.empty 0 (marine_query_of ''0'' ''0'' ''0'' ''0'')
                  (Resp 200 (Some hourly_doc)) (Threw AbortError))) = 200"
    by code_simp
  have b: "parseFloat (js_or (q_lat (marine_query_of ''north'' ''0'' ''0'' ''0''))
             (q_latitude (marine_query_of ''north'' ''0'' ''0'' ''0''))) = NaN"
    by code_simp
  show ?thesis
    using marine_coordinate_validation[of Map.empty 0 "marine_query_of ''north'' ''0'' ''0'' ''0''"
             "Resp 200 (Some hourly_doc)" "Threw AbortError"]
          marine_coordinate_validation[of Map.empty 0
             "\<lparr> q_lat = None, q_latitude = None, q_lon = Some ''0'', q_longitude = None,
                q_forecast_minutely_15 = None, q_past_minutely_15 = None \<rparr>"
             "Resp 200 (Some hourly_doc)" "Threw AbortError"]
    by (simp add: a b)
qed

text \<open>
  Claim C5, as stated, fails. With \<open>past_minutely_15=0\<close> and \<open>forecast_minutely_15=0\<close> the
  response to a request without upstream minutely data has the property \<open>series15\<close>,
  with the value \<open>null\<close>; and for coordinates in a supported region with upstream
  minutely data the bucket aggregation runs and \<open>series15\<close> is a series.
\<close>

theorem zero_window_counterexample:
  "map_of (sent (body (fst (marine_handler Map.empty 900000
              (marine_query_of ''0'' ''0'' ''0'' ''0'')
              (Resp 200 (Some hourly_doc)) (Threw AbortError))))) ''series15'' = Some FNull \<and>
   map_of (sent (body (fst (marine_handler Map.empty 900000
              (marine_query_of ''50'' ''10'' ''0'' ''0'')
              (Resp 200 (Some minutely_doc)) (Threw AbortError))))) ''series15''
     = Some (FSeries bucket_series)"
  by code_simp

text \<open>
  Claim C5, amended. With \<open>pastSteps = 0\<close> and \<open>forecastSteps = 0\<close> the interpolation
  path never runs: no series is requested, and the result of the resampler does not
  depend on the hourly arrays of the upstream document. For an upstream document
  without minutely data, or coordinates outside the supported regions, no resampling is
  done at all, and a request that misses the cache and whose upstream request succeeds
  is answered with status 200 and a body in which \<open>series15\<close> is present with the value
  \<open>null\<close>.
\<close>

theorem zero_window:
  assumes "max0 (parseInt_or (q_forecast_minutely_15 q) ''96'') = Some 0"
    and "max0 (parseInt_or (q_past_minutely_15 q) ''0'') = Some 0"
    and "lat = parseFloat (js_or (q_lat q) (q_latitude q))" and "lat \<noteq> NaN"
    and "lon = parseFloat (js_or (q_lon q) (q_longitude q))" and "lon \<noteq> NaN"
    and "cache_get c now (MarineKey lat lon (Some 0) (Some 0)) = None"
    and "marine_fetch first second = Inr json"
  shows "\<not> wantMinutely15 (Some 0) (Some 0) \<and>
         (\<forall>h. resample (json\<lparr>j_hourly := h\<rparr>) lat lon now (Some 0) (Some 0)
                = resample json lat lon now (Some 0) (Some 0)) \<and>
         (\<not> (hasMinutely json \<and> inSupportedRegion lat lon) \<longrightarrow>
            resample json lat lon now (Some 0) (Some 0) = Inr None \<and>
            status (fst (marine_handler c now q first second)) = 200 \<and>
            map_of (sent (body (fst (marine_handler c now q first second)))) ''series15''
              = Some FNull \<and>
            map_of (sent (body (fst (marine_handler c now q first second)))) ''cached''
              = Some (FBool False))"
proof -
  have w: "\<not> wantMinutely15 (Some 0) (Some 0)"
    by (simp add: wantMinutely15_def)
  have i: "\<forall>h. resample (json\<lparr>j_hourly := h\<rparr>) lat lon now (Some 0) (Some 0)
                = resample json lat lon now (Some 0) (Some 0)"
    by (auto simp: resample_def wantMinutely15_def hasMinutely_def)
  have r: "\<not> (hasMinutely json \<and> inSupportedRegion lat lon) \<Longrightarrow>
           resample json lat lon now (Some 0) (Some 0) = Inr None"
    by (auto simp: resample_def wantMinutely15_def)
  have h: "\<not> (hasMinutely json \<and> inSupportedRegion lat lon) \<Longrightarrow>
           fst (marine_handler c now q first second)
             = reply 200 (with_prop (marine_payload json lat lon None) ''cached'' (FBool False))"
    using assms r by (simp add: marine_handler_def Let_def)
  have s: "map_of (sent (with_prop (marine_payload json lat lon None) ''cached'' (FBool False)))
             ''series15'' = Some FNull"
          "map_of (sent (with_prop (marine_payload json lat lon None) ''cached'' (FBool False)))
             ''cached'' = Some (FBool False)"
    by (simp_all add: sent_def with_prop_def marine_payload_def)
  have t: "\<not> (hasMinutely json \<and> inSupportedRegion lat lon) \<longrightarrow>
            resample json lat lon now (Some 0) (Some 0) = Inr None \<and>
            status (fst (marine_handler c now q first second)) = 200 \<and>
            map_of (sent (body (fst (marine_handler c now q first second)))) ''series15''
              = Some FNull \<and>
            map_of (sent (body (fst (marine_handler c now q first second)))) ''cached''
              = Some (FBool False)"
    using h s r by (simp add: reply_def)
  show ?thesis
    by (intro conjI) (rule w i t)+
qed

theorem zero_window_witness:
  "map_of (sent (body (fst (marine_handler Map.empty 900000
              (marine_query_of ''0'' ''0'' ''0'' ''0'')
              (Resp 200 (Some hourly_doc)) (Threw AbortError))))) ''cached''
     = Some (FBool False) \<and>
   status (fst (marine_handler Map.empty 900000 (marine_query_of ''0'' ''0'' ''0'' ''0'')
              (Resp 200 (Some hourly_doc)) (Threw AbortError))) = 200 \<and>
   resample hourly_doc (Fin 0) (Fin 0) 900000 (Some 0) (Some 0) = Inr None \<and>
   resample (hourly_doc\<lparr>j_hourly := None\<rparr>) (Fin 0) (Fin 0) 900000 (Some 0) (Some 0) = Inr None"
proof -
  have a: "max0 (parseInt_or (q_forecast_minutely_15 (marine_query_of ''0'' ''0'' ''0'' ''0''))
      ''96'')
             = Some 0"
    and b: "max0 (parseInt_or (q_past_minutely_15 (marine_query_of ''0'' ''0'' ''0'' ''0'')) ''0'')
             = Some 0"
    and la: "Fin 0 = parseFloat (js_or (q_lat (marine_query_of ''0'' ''0'' ''0'' ''0''))
                       (q_latitude (marine_query_of ''0'' ''0'' ''0'' ''0'')))"
    and lo: "Fin 0 = parseFloat (js_or (q_lon (marine_query_of ''0'' ''0'' ''0'' ''0''))
                       (q_longitude (marine_query_of ''0'' ''0'' ''0'' ''0'')))"
    and f: "marine_fetch (Resp 200 (Some hourly_doc)) (Threw AbortError) = Inr hourly_doc"
    and nm: "\<not> hasMinutely hourly_doc"
    by code_simp+
  have cg: "cache_get Map.empty 900000 (MarineKey (Fin 0) (Fin 0) (Some 0) (Some 0)) = None"
    by (simp add: cache_get_def)
  show ?thesis
    using zero_window[OF a b la _ lo _ cg f] nm by simp
qed

section \<open>Properties of the rounding to doubles\<close>

lemma round_even_le: "q \<le> of_int k \<Longrightarrow> round_even q \<le> k"
proof -
  assume h: "q \<le> of_int k"
  then have f: "\<lfloor>q\<rfloor> \<le> k" by (simp add: floor_le_iff)
  show ?thesis
  proof (cases "q = of_int \<lfloor>q\<rfloor>")
    case True
    then have "q - of_int \<lfloor>q\<rfloor> < 1 / 2" by simp
    then show ?thesis using f by (simp add: round_even_def Let_def)
  next
    case False
    then have "of_int \<lfloor>q\<rfloor> < q" by (metis of_int_floor_le order_less_le)
    with h have "of_int \<lfloor>q\<rfloor> < (of_int k :: real)" by linarith
    then have "\<lfloor>q\<rfloor> < k" by linarith
    then show ?thesis by (auto simp: round_even_def Let_def)
  qed
qed

lemma round_even_ge: "of_int k \<le> q \<Longrightarrow> k \<le> round_even q"
proof -
  assume "of_int k \<le> q"
  then have "k \<le> \<lfloor>q\<rfloor>" by (simp add: le_floor_iff)
  then show ?thesis by (auto simp: round_even_def Let_def)
qed

lemma exponent_lower: "0 < x \<Longrightarrow> 2 powi (exponent x) \<le> x"
proof (cases "1 \<le> x")
  case True
  assume "0 < x"
  from True have p: "0 < \<lfloor>x\<rfloor>" by linarith
  from bitlen_bounds[OF p] have b: "2 ^ nat (bitlen \<lfloor>x\<rfloor> - 1) \<le> \<lfloor>x\<rfloor>" by simp
  have "1 \<le> bitlen \<lfloor>x\<rfloor>" using p by (simp add: bitlen_alt_def)
  then have "(2::real) powi (bitlen \<lfloor>x\<rfloor> - 1) = 2 ^ nat (bitlen \<lfloor>x\<rfloor> - 1)"
    by (simp add: power_int_def)
  also have "\<dots> = of_int (2 ^ nat (bitlen \<lfloor>x\<rfloor> - 1))" by simp
  also have "\<dots> \<le> of_int \<lfloor>x\<rfloor>" using b by (simp only: of_int_le_iff)
  also have "\<dots> \<le> x" by simp
  finally show ?thesis using True by (simp add: exponent_def)
next
  case False
  assume pos: "0 < x"
  with False have "1 < 1 / x" by simp
  then have m: "0 < \<lceil>1 / x\<rceil> - 1" by linarith
  from bitlen_bounds[OF m] have "\<lceil>1 / x\<rceil> - 1 < 2 ^ nat (bitlen (\<lceil>1 / x\<rceil> - 1))" by simp
  then have "\<lceil>1 / x\<rceil> \<le> 2 ^ nat (bitlen (\<lceil>1 / x\<rceil> - 1))" by simp
  then have c: "of_int \<lceil>1 / x\<rceil> \<le> (of_int (2 ^ nat (bitlen (\<lceil>1 / x\<rceil> - 1))) :: real)"
    by (simp only: of_int_le_iff)
  have "1 / x \<le> of_int \<lceil>1 / x\<rceil>" by (rule le_of_int_ceiling)
  also note c
  also have "(of_int (2 ^ nat (bitlen (\<lceil>1 / x\<rceil> - 1))) :: real)
               = 2 ^ nat (bitlen (\<lceil>1 / x\<rceil> - 1))" by simp
  finally have le: "1 / x \<le> 2 ^ nat (bitlen (\<lceil>1 / x\<rceil> - 1))" .
  have nn: "0 \<le> bitlen (\<lceil>1 / x\<rceil> - 1)" by (rule bitlen_nonneg)
  have "(2::real) powi (- bitlen (\<lceil>1 / x\<rceil> - 1)) = 1 / 2 ^ nat (bitlen (\<lceil>1 / x\<rceil> - 1))"
    using nn by (simp add: power_int_def field_simps)
  also have "\<dots> \<le> x"
    using le pos by (simp add: field_simps)
  finally show ?thesis using False by (simp add: exponent_def)
qed

lemma exponent_le: "0 < x \<Longrightarrow> x < 2 powi (k + 1) \<Longrightarrow> exponent x \<le> k"
proof (rule ccontr)
  assume pos: "0 < x" and lt: "x < 2 powi (k + 1)" and "\<not> exponent x \<le> k"
  then have "k + 1 \<le> exponent x" by simp
  then have "(2::real) powi (k + 1) \<le> 2 powi (exponent x)"
    by (intro power_int_increasing) simp_all
  with exponent_lower[OF pos] lt show False by linarith
qed

lemma ulp_pos: "0 < ulp x"
  by (simp add: ulp_def)

lemma to_double_le:
  assumes "x \<le> c" and "c = of_int k * ulp x" and "0 \<le> c"
  shows "to_double x \<le> c"
proof (cases "x = 0")
  case True then show ?thesis using assms(3) by (simp add: to_double_def)
next
  case False
  have "x / ulp x \<le> of_int k"
    using assms(1,2) ulp_pos[of x] by (simp add: field_simps)
  then have "round_even (x / ulp x) \<le> k" by (rule round_even_le)
  then have "of_int (round_even (x / ulp x)) * ulp x \<le> of_int k * ulp x"
    using ulp_pos[of x] by (simp add: mult_right_mono)
  then show ?thesis using False assms(2) by (simp add: to_double_def)
qed

lemma to_double_ge:
  assumes "c \<le> x" and "c = of_int k * ulp x" and "c \<le> 0 \<or> x \<noteq> 0"
  shows "c \<le> to_double x"
proof (cases "x = 0")
  case True then show ?thesis using assms(3) by (simp add: to_double_def)
next
  case False
  have "of_int k \<le> x / ulp x"
    using assms(1,2) ulp_pos[of x] by (simp add: field_simps)
  then have "k \<le> round_even (x / ulp x)" by (rule round_even_ge)
  then have "of_int k * ulp x \<le> of_int (round_even (x / ulp x)) * ulp x"
    using ulp_pos[of x] by (simp add: mult_right_mono)
  then show ?thesis using False assms(2) by (simp add: to_double_def)
qed

lemma powi_quot: "m \<le> n \<Longrightarrow> (2::real) powi n / 2 powi m = of_int (2 ^ nat (n - m))"
proof -
  assume "m \<le> n"
  have "(2::real) powi n / 2 powi m = 2 powi (n - m)"
    by (simp add: power_int_diff)
  also have "\<dots> = 2 ^ nat (n - m)" using \<open>m \<le> n\<close> by (simp add: power_int_def)
  finally show ?thesis by simp
qed

lemma multiple_of_ulp:
  assumes "0 < x" and "x < 2 powi (j + 1)" and "- 1022 \<le> j" and "j - 52 \<le> k"
  shows "\<exists>n. (2::real) powi k = of_int n * ulp x"
proof -
  have e: "exponent \<bar>x\<bar> \<le> j" using exponent_le[OF _ assms(2)] assms(1) by simp
  define m where "m = max (exponent \<bar>x\<bar>) (- 1022) - 52"
  have m: "m \<le> k" using e assms(3,4) by (simp add: m_def)
  have u: "ulp x = 2 powi m" by (simp add: ulp_def m_def)
  have "(2::real) powi k / 2 powi m = of_int (2 ^ nat (k - m))" by (rule powi_quot[OF m])
  then have "(2::real) powi k = of_int (2 ^ nat (k - m)) * ulp x" by (simp add: u field_simps)
  then show ?thesis by blast
qed

lemma half_draw_range:
  assumes "0 \<le> r" and "r < 1"
  shows "0 \<le> to_double (r * 0.5) \<and> to_double (r * 0.5) \<le> 1 / 2"
proof (cases "r = 0")
  case True then show ?thesis by (simp add: to_double_def)
next
  case False
  define x where "x = r * 0.5"
  have pos: "0 < x" using assms False by (simp add: x_def)
  have "x < 1 / 2" using assms by (simp add: x_def)
  also have "(1 / 2 :: real) = 2 powi (- 2 + 1)" by (simp add: power_int_def)
  finally have lt: "x < 2 powi (- 2 + 1)" .
  obtain n where n: "(2::real) powi (- 1) = of_int n * ulp x"
    using multiple_of_ulp[OF pos lt, of "- 1"] by auto
  have half: "(1 / 2 :: real) = of_int n * ulp x"
    using n by (simp add: power_int_def)
  have xle: "x \<le> 1 / 2" using assms by (simp add: x_def)
  have up: "to_double x \<le> 1 / 2"
    by (rule to_double_le[OF xle half]) simp
  have z: "(0::real) = of_int 0 * ulp x" by simp
  have lo: "0 \<le> to_double x"
    by (rule to_double_ge[OF _ z]) (use pos in simp_all)
  show ?thesis using lo up by (simp only: x_def) 
qed

lemma jitter_range:
  assumes "0 \<le> r" and "r < 1"
  shows "3 / 4 \<le> jitter r \<and> jitter r \<le> 5 / 4"
proof -
  define y where "y = to_double (r * 0.5)"
  define x where "x = 0.75 + y"
  have y: "0 \<le> y" "y \<le> 1 / 2" using half_draw_range[OF assms] by (simp_all only: y_def)
  have pos: "0 < x" using y by (simp add: x_def)
  have xlo: "3 / 4 \<le> x" using y by (simp add: x_def)
  have xhi: "x \<le> 5 / 4" using y by (simp add: x_def)
  have "x < 2" using xhi by simp
  also have "(2::real) = 2 powi (0 + 1)" by simp
  finally have lt: "x < 2 powi (0 + 1)" .
  obtain n where n: "(2::real) powi (- 2) = of_int n * ulp x"
    using multiple_of_ulp[OF pos lt, of "- 2"] by auto
  have quarter: "(1 / 4 :: real) = of_int n * ulp x"
    using n by (simp add: power_int_def power2_eq_square)
  have lo_eq: "(3 / 4 :: real) = of_int (3 * n) * ulp x"
    using quarter by (simp add: algebra_simps)
  have hi_eq: "(5 / 4 :: real) = of_int (5 * n) * ulp x"
    using quarter by (simp add: algebra_simps)
  have lo: "3 / 4 \<le> to_double x"
    by (rule to_double_ge[OF xlo lo_eq]) (use pos in simp)
  have hi: "to_double x \<le> 5 / 4"
    by (rule to_double_le[OF xhi hi_eq]) simp
  show ?thesis using lo hi by (simp only: jitter_def x_def y_def) 
qed

lemma jitter_ends: "jitter 0 = 3 / 4" "jitter (1 - 1 / 2 ^ 53) = 5 / 4"
  by code_simp+

lemma exponent_upper: "0 < x \<Longrightarrow> x < 2 powi (exponent x + 1)"
proof (cases "1 \<le> x")
  case True
  then have p: "0 < \<lfloor>x\<rfloor>" by linarith
  from bitlen_bounds[OF p] have "\<lfloor>x\<rfloor> < 2 ^ nat (bitlen \<lfloor>x\<rfloor>)" by simp
  then have "\<lfloor>x\<rfloor> + 1 \<le> 2 ^ nat (bitlen \<lfloor>x\<rfloor>)" by simp
  then have c: "of_int (\<lfloor>x\<rfloor> + 1) \<le> (of_int (2 ^ nat (bitlen \<lfloor>x\<rfloor>)) :: real)"
    by (simp only: of_int_le_iff)
  have "x < of_int (\<lfloor>x\<rfloor> + 1)" by linarith
  also note c
  also have "(of_int (2 ^ nat (bitlen \<lfloor>x\<rfloor>)) :: real) = 2 powi (bitlen \<lfloor>x\<rfloor>)"
    using bitlen_nonneg[of "\<lfloor>x\<rfloor>"] by (simp add: power_int_def)
  finally show ?thesis using True by (simp add: exponent_def)
next
  case False
  assume pos: "0 < x"
  with False have "1 < 1 / x" by simp
  then have m: "0 < \<lceil>1 / x\<rceil> - 1" by linarith
  define b where "b = bitlen (\<lceil>1 / x\<rceil> - 1)"
  have b1: "1 \<le> b" using m by (simp add: b_def bitlen_alt_def)
  from bitlen_bounds[OF m] have "2 ^ nat (b - 1) \<le> \<lceil>1 / x\<rceil> - 1" by (simp add: b_def)
  then have "(of_int (2 ^ nat (b - 1)) :: real) \<le> of_int (\<lceil>1 / x\<rceil> - 1)"
    by (simp only: of_int_le_iff)
  also have "\<dots> < 1 / x" by linarith
  finally have "(2::real) ^ nat (b - 1) < 1 / x" by simp
  then have "x < 1 / 2 ^ nat (b - 1)" using pos by (simp add: field_simps)
  also have "\<dots> = 2 powi (- b + 1)"
    using b1 by (simp add: power_int_def field_simps)
  finally show ?thesis using False by (simp add: exponent_def b_def)
qed

lemma round_even_nearest: "\<bar>of_int (round_even q) - q\<bar> \<le> 1 / 2"
  unfolding round_even_def Let_def by (auto; linarith)

lemma to_double_nearest: "\<bar>to_double x - x\<bar> \<le> ulp x / 2"
proof (cases "x = 0")
  case True then show ?thesis using ulp_pos[of 0] by (simp add: to_double_def)
next
  case False
  have "\<bar>to_double x - x\<bar> = \<bar>of_int (round_even (x / ulp x)) - x / ulp x\<bar> * ulp x"
    using False ulp_pos[of x] by (simp add: to_double_def abs_mult[symmetric] field_simps)
  also have "\<dots> \<le> 1 / 2 * ulp x"
    using round_even_nearest[of "x / ulp x"] ulp_pos[of x] by (intro mult_right_mono) simp_all
  finally show ?thesis by simp
qed

lemma round_even_of_int: "round_even (of_int m) = m"
  by (simp add: round_even_def)

lemma to_double_exact:
  assumes "x = of_int m * ulp x"
  shows "to_double x = x"
proof (cases "x = 0")
  case True then show ?thesis by (simp add: to_double_def)
next
  case False
  have "x / ulp x = of_int m" using assms ulp_pos[of x] by (simp add: field_simps)
  then have "round_even (x / ulp x) = m" by (simp add: round_even_of_int)
  then show ?thesis using False assms by (simp add: to_double_def)
qed

lemma to_double_bounded:
  assumes "0 \<le> x" and "x \<le> of_int m * 2 powi k" and "x < 2 powi (j + 1)"
    and "- 1022 \<le> j" and "j - 52 \<le> k"
  shows "0 \<le> to_double x \<and> to_double x \<le> of_int m * 2 powi k"
proof (cases "x = 0")
  case True
  then show ?thesis using assms(1,2) by (simp add: to_double_def)
next
  case False
  then have pos: "0 < x" using assms(1) by simp
  obtain n where n: "(2::real) powi k = of_int n * ulp x"
    using multiple_of_ulp[OF pos assms(3,4,5)] by auto
  have c: "of_int m * 2 powi k = of_int (m * n) * ulp x"
    using n by simp
  have nn: "(0::real) \<le> of_int m * 2 powi k" using assms(1,2) by linarith
  have up: "to_double x \<le> of_int m * 2 powi k"
    by (rule to_double_le[OF assms(2) c nn])
  have z: "(0::real) = of_int 0 * ulp x" by simp
  have lo: "0 \<le> to_double x"
    by (rule to_double_ge[OF _ z]) (use pos in simp_all)
  show ?thesis using lo up by simp
qed

lemma to_double_power: "to_double (2 ^ k) = 2 ^ k"
proof -
  have pos: "(0::real) < 2 ^ k" by simp
  have lt: "(2::real) ^ k < 2 powi (int k + 1)"
    by (simp add: power_int_add)
  obtain n where n: "(2::real) powi (int k) = of_int n * ulp (2 ^ k)"
    using multiple_of_ulp[OF pos lt, of "int k"] by auto
  then have "(2::real) ^ k = of_int n * ulp (2 ^ k)" by simp
  then show ?thesis by (rule to_double_exact)
qed

lemma fl_finite: "0 \<le> to_double x \<Longrightarrow> to_double x < 2 ^ 1024 \<Longrightarrow> fl x = Fin (to_double x)"
proof (cases "to_double x = 0")
  case True
  then show ?thesis by (simp add: fl_def)
next
  case False
  assume "0 \<le> to_double x" and lt: "to_double x < 2 ^ 1024"
  then have pos: "0 < to_double x" using False by simp
  have "to_double x < 2 powi (1023 + 1)" using lt by simp
  from exponent_le[OF pos this] pos show ?thesis by (simp add: fl_def)
qed

lemma round_half_up_near: "\<bar>of_int \<lfloor>to_double x + 1 / 2\<rfloor> - x\<bar> \<le> 1 / 2 + ulp x / 2"
proof -
  have "\<bar>of_int \<lfloor>to_double x + 1 / 2\<rfloor> - to_double x\<bar> \<le> 1 / 2" by linarith
  then show ?thesis using to_double_nearest[of x] by linarith
qed

lemma backoff_delay_finite:
  assumes "1 \<le> n" and "n \<le> 1024" and "0 \<le> r" and "r < 1"
    and "0 \<le> base" and "base * 2 ^ nat (n - 1) \<le> 2 ^ 1023"
  shows "backoff_delay base n r =
           Fin (of_int \<lfloor>to_double (to_double (base * 2 ^ nat (n - 1)) * jitter r) + 1 / 2\<rfloor>)"
proof -
  define k where "k = nat (n - 1)"
  define B where "B = to_double (base * 2 ^ k)"
  have k: "k \<le> 1023" using assms(1,2) by (simp add: k_def)
  have "(2::real) ^ k < 2 ^ 1024" using k by (intro power_strict_increasing) simp_all
  then have p: "fl (2 ^ k) = Fin (2 ^ k)"
    using fl_finite[of "2 ^ k"] by (simp add: to_double_power)
  have x0: "0 \<le> base * 2 ^ k" using assms(5) by simp
  have x1: "base * 2 ^ k \<le> of_int 1 * 2 powi 1023" using assms(6) by (simp add: k_def)
  have x2: "base * 2 ^ k < 2 powi (1023 + 1)"
  proof -
    have "base * 2 ^ k \<le> 2 ^ 1023" using assms(6) by (simp add: k_def)
    also have "(2::real) ^ 1023 < 2 ^ 1024" by (intro power_strict_increasing) simp_all
    finally show ?thesis by simp
  qed
  have Bb: "0 \<le> B \<and> B \<le> of_int 1 * 2 powi 1023"
    unfolding B_def by (rule to_double_bounded[OF x0 x1 x2]) simp_all
  then have B0: "0 \<le> B" and B1: "B \<le> 2 ^ 1023" by simp_all
  have "(2::real) ^ 1023 < 2 ^ 1024" by (intro power_strict_increasing) simp_all
  then have "B < 2 ^ 1024" using B1 by simp
  then have b: "fl (base * 2 ^ k) = Fin B"
    using fl_finite[of "base * 2 ^ k"] B0 by (simp add: B_def)
  have j: "3 / 4 \<le> jitter r" "jitter r \<le> 5 / 4" using jitter_range[OF assms(3,4)] by simp_all
  have y0: "0 \<le> B * jitter r" using B0 j by simp
  have "B * jitter r \<le> 2 ^ 1023 * (5 / 4)"
    using B0 B1 j by (intro mult_mono) simp_all
  also have "(2::real) ^ 1023 * (5 / 4) = 5 * 2 ^ 1021"
  proof -
    have "(2::real) ^ 1023 = 4 * 2 ^ 1021" by (simp flip: power_add)
    then show ?thesis by simp
  qed
  finally have y1': "B * jitter r \<le> 5 * 2 ^ 1021" .
  then have y1: "B * jitter r \<le> of_int 5 * 2 powi 1021" by simp
  have y2: "B * jitter r < 2 powi (1023 + 1)"
  proof -
    have "5 * (2::real) ^ 1021 < 8 * 2 ^ 1021" by simp
    also have "\<dots> = 2 ^ 1024" by (simp flip: power_add)
    finally show ?thesis using y1' by simp
  qed
  have "0 \<le> to_double (B * jitter r) \<and> to_double (B * jitter r) \<le> of_int 5 * 2 powi 1021"
    by (rule to_double_bounded[OF y0 y1 y2]) simp_all
  moreover have "5 * (2::real) ^ 1021 < 2 ^ 1024"
  proof -
    have "5 * (2::real) ^ 1021 < 8 * 2 ^ 1021" by simp
    also have "\<dots> = 2 ^ 1024" by (simp flip: power_add)
    finally show ?thesis .
  qed
  ultimately have "0 \<le> to_double (B * jitter r)" and "to_double (B * jitter r) < 2 ^ 1024"
    by simp_all
  then have d: "fl (B * jitter r) = Fin (to_double (B * jitter r))"
    by (rule fl_finite)
  show ?thesis
    by (simp add: backoff_delay_def p b d js_round_def flip: k_def B_def)
qed

lemma below_overflow: "x \<le> 2 ^ 10 \<Longrightarrow> x \<le> (2::real) ^ 1023"
proof -
  assume "x \<le> 2 ^ 10"
  also have "(2::real) ^ 10 \<le> 2 ^ 1023" by (intro power_increasing) simp_all
  finally show ?thesis .
qed

lemma delay_values:
  "\<lfloor>to_double (to_double (300 * 2 ^ nat (1 - 1)) * jitter (1 / 4)) + 1 / 2\<rfloor> = 263"
  "\<lfloor>to_double (to_double (300 * 2 ^ nat (2 - 1)) * jitter (1 / 4)) + 1 / 2\<rfloor> = 525"
  "\<lfloor>to_double (to_double (3 * 2 ^ nat (1 - 1)) * jitter 0) + 1 / 2\<rfloor> = 2"
  "\<lfloor>to_double (to_double (3 * 2 ^ nat (2 - 1)) * jitter 0) + 1 / 2\<rfloor> = 5"
  "\<lfloor>to_double (to_double (300 * 2 ^ nat (2 - 1)) * jitter (to_double (1 / 200))) + 1 / 2\<rfloor> = 451"
  by code_simp+

lemma delay_examples:
  "backoff_delay 300 1 (1 / 4) = Fin 263" "backoff_delay 300 2 (1 / 4) = Fin 525"
  "backoff_delay 3 1 0 = Fin 2" "backoff_delay 3 2 0 = Fin 5"
proof -
  have h: "0 \<le> r \<Longrightarrow> r < 1 \<Longrightarrow> 0 \<le> base \<Longrightarrow> base * 2 ^ nat (n - 1) \<le> 2 ^ 10 \<Longrightarrow> 1 \<le> n \<Longrightarrow> n \<le> 1024 \<Longrightarrow>
      backoff_delay base n r =
        Fin (of_int \<lfloor>to_double (to_double (base * 2 ^ nat (n - 1)) * jitter r) + 1 / 2\<rfloor>)"
    for base n r
    by (rule backoff_delay_finite) (simp_all add: below_overflow)
  have "backoff_delay 300 1 (1 / 4) =
      Fin (of_int \<lfloor>to_double (to_double (300 * 2 ^ nat (1 - 1)) * jitter (1 / 4)) + 1 / 2\<rfloor>)"
    by (rule h) simp_all
  then show "backoff_delay 300 1 (1 / 4) = Fin 263" unfolding delay_values by simp
  have "backoff_delay 300 2 (1 / 4) =
      Fin (of_int \<lfloor>to_double (to_double (300 * 2 ^ nat (2 - 1)) * jitter (1 / 4)) + 1 / 2\<rfloor>)"
    by (rule h) simp_all
  then show "backoff_delay 300 2 (1 / 4) = Fin 525" unfolding delay_values by simp
  have "backoff_delay 3 1 0 =
      Fin (of_int \<lfloor>to_double (to_double (3 * 2 ^ nat (1 - 1)) * jitter 0) + 1 / 2\<rfloor>)"
    by (rule h) simp_all
  then show "backoff_delay 3 1 0 = Fin 2" unfolding delay_values by simp
  have "backoff_delay 3 2 0 =
      Fin (of_int \<lfloor>to_double (to_double (3 * 2 ^ nat (2 - 1)) * jitter 0) + 1 / 2\<rfloor>)"
    by (rule h) simp_all
  then show "backoff_delay 3 2 0 = Fin 5" unfolding delay_values by simp
qed

section \<open>The retry loop\<close>

lemma ok_below_500: "ok st \<Longrightarrow> st < 500"
  by (simp add: ok_def)

lemma retry_step_fail:
  assumes "attempt \<le> retries" and "retryable (upstream (nat attempt))"
  shows "retry_loop upstream rand retries base attempt lastErr ds =
          (if attempt + 1 > retries
           then \<lparr> outcome = Threw (failure_of (upstream (nat attempt))),
                  calls = nat attempt + 1, delays = ds \<rparr>
           else retry_loop upstream rand retries base (attempt + 1)
                  (Some (failure_of (upstream (nat attempt))))
                  (ds @ [backoff_delay base (attempt + 1) (rand (nat attempt))]))"
  using assms
  by (subst retry_loop.simps)
     (auto simp: retryable_def failure_of_def ok_def split: fetched.splits)

lemma retry_step_done:
  assumes "attempt \<le> retries" and "upstream (nat attempt) = Resp st b" and "st < 500"
  shows "retry_loop upstream rand retries base attempt lastErr ds =
           \<lparr> outcome = Resp st b, calls = nat attempt + 1, delays = ds \<rparr>"
  using assms by (subst retry_loop.simps) simp

lemma retry_loop_fails:
  assumes "0 \<le> attempt" and "attempt \<le> retries"
    and "\<forall>k. attempt \<le> int k \<and> int k \<le> retries \<longrightarrow> retryable (upstream k)"
  shows "retry_loop upstream rand retries base attempt lastErr ds =
           \<lparr> outcome = Threw (failure_of (upstream (nat retries))),
             calls = nat retries + 1,
             delays = ds @ backoff_delays base rand (attempt + 1) retries \<rparr>"
  using assms
proof (induction "nat (retries - attempt)" arbitrary: attempt lastErr ds)
  case 0
  then have eq: "attempt = retries" by simp
  have "retryable (upstream (nat attempt))" using 0 by simp
  from retry_step_fail[where upstream=upstream and attempt=attempt and retries=retries,
         OF "0.prems"(2) this]
  show ?case
    by (simp add: eq backoff_delays_def)
next
  case (Suc m)
  then have lt: "attempt < retries" by simp
  have r: "retryable (upstream (nat attempt))" using Suc.prems by simp
  have m: "m = nat (retries - (attempt + 1))" using Suc.hyps(2) by simp
  have all: "\<forall>k. attempt + 1 \<le> int k \<and> int k \<le> retries \<longrightarrow> retryable (upstream k)"
    using Suc.prems(3) by simp
  have up: "[attempt + 1..retries] = (attempt + 1) # [attempt + 1 + 1..retries]"
    using lt by (simp add: upto_rec1)
  have d: "nat (attempt + 1 - 1) = nat attempt" by simp
  have step: "retry_loop upstream rand retries base attempt lastErr ds =
      retry_loop upstream rand retries base (attempt + 1)
        (Some (failure_of (upstream (nat attempt))))
        (ds @ [backoff_delay base (attempt + 1) (rand (nat attempt))])"
    using retry_step_fail[where upstream=upstream and attempt=attempt and retries=retries,
            OF Suc.prems(2) r] lt by simp
  have IH: "retry_loop upstream rand retries base (attempt + 1) le' ds' =
           \<lparr> outcome = Threw (failure_of (upstream (nat retries))),
             calls = nat retries + 1,
             delays = ds' @ backoff_delays base rand (attempt + 1 + 1) retries \<rparr>" for le' ds'
    using Suc.hyps(1)[OF m _ _ all] Suc.prems(1) lt by simp
  show ?case
    unfolding step IH by (simp only: backoff_delays_def up list.map d append_assoc append.simps)
qed

lemma retry_loop_succeeds:
  assumes "0 \<le> attempt" and "attempt \<le> int n" and "int n \<le> retries"
    and "\<forall>k. attempt \<le> int k \<and> k < n \<longrightarrow> retryable (upstream k)"
    and "upstream n = Resp st b" and "st < 500"
  shows "retry_loop upstream rand retries base attempt lastErr ds =
           \<lparr> outcome = Resp st b, calls = n + 1,
             delays = ds @ backoff_delays base rand (attempt + 1) (int n) \<rparr>"
  using assms
proof (induction "n - nat attempt" arbitrary: attempt lastErr ds)
  case 0
  then have eq: "attempt = int n" by simp
  have "upstream (nat attempt) = Resp st b" using 0 eq by simp
  from retry_step_done[where upstream=upstream and attempt=attempt and retries=retries,
         OF _ this "0.prems"(6)] "0.prems"
  show ?case
    by (simp add: eq backoff_delays_def)
next
  case (Suc m)
  then have lt: "attempt < int n" by simp
  have r: "retryable (upstream (nat attempt))" using Suc.prems lt by simp
  have le: "attempt \<le> retries" using lt Suc.prems(3) by simp
  have m: "m = n - nat (attempt + 1)" using Suc.hyps(2) Suc.prems(1) by simp
  have all: "\<forall>k. attempt + 1 \<le> int k \<and> k < n \<longrightarrow> retryable (upstream k)"
    using Suc.prems(4) by simp
  have up: "[attempt + 1..int n] = (attempt + 1) # [attempt + 1 + 1..int n]"
    using lt by (simp add: upto_rec1)
  have d: "nat (attempt + 1 - 1) = nat attempt" by simp
  have step: "retry_loop upstream rand retries base attempt lastErr ds =
      retry_loop upstream rand retries base (attempt + 1)
        (Some (failure_of (upstream (nat attempt))))
        (ds @ [backoff_delay base (attempt + 1) (rand (nat attempt))])"
    using retry_step_fail[where upstream=upstream and attempt=attempt and retries=retries,
            OF le r] lt Suc.prems(3) by simp
  have IH: "retry_loop upstream rand retries base (attempt + 1) le' ds' =
           \<lparr> outcome = Resp st b, calls = n + 1,
             delays = ds' @ backoff_delays base rand (attempt + 1 + 1) (int n) \<rparr>" for le' ds'
    using Suc.hyps(1)[OF m _ _ Suc.prems(3) all Suc.prems(5,6)] Suc.prems(1) lt by simp
  show ?case
    unfolding step IH by (simp only: backoff_delays_def up list.map d append_assoc append.simps)
qed

text \<open>
  Claim C3, as stated, fails in its last part: the delay is rounded to a whole number of
  milliseconds. Against an upstream that always answers 503, with the default base of
  300 ms and a draw of 0.25 the first delay is 263, not 300 * 0.875 = 262.5; with a
  base of 3 ms and a draw of 0 it is 2, below 3 * 0.75, the least value the formula
  allows for a jitter in [0.75, 1.25].
\<close>

theorem backoff_delay_counterexample:
  "delays (fetchWithRetries always_503 draws_quarter 2 300) = [Fin 263, Fin 525] \<and>
   (263::real) \<noteq> 300 * 2 ^ 0 * (0.75 + draws_quarter 0 * 0.5) \<and>
   delays (fetchWithRetries always_503 draws_0 2 3) = [Fin 2, Fin 5] \<and>
   (2::real) < 3 * 2 ^ 0 * 0.75"
proof -
  have r: "\<forall>k. 0 \<le> int k \<and> int k \<le> 2 \<longrightarrow> retryable (always_503 k)"
    by (simp add: retryable_def always_503_def)
  have u: "[1..2::int] = [1, 2]" by (simp add: upto_rec1)
  have a: "delays (fetchWithRetries always_503 draws_quarter 2 300) = [Fin 263, Fin 525]"
    by (simp add: fetchWithRetries_def retry_loop_fails[OF _ _ r] backoff_delays_def u
          delay_examples draws_quarter_def)
  have b: "delays (fetchWithRetries always_503 draws_0 2 3) = [Fin 2, Fin 5]"
    by (simp add: fetchWithRetries_def retry_loop_fails[OF _ _ r] backoff_delays_def u
          delay_examples draws_0_def)
  show ?thesis by (simp add: a b draws_quarter_def)
qed

text \<open>
  Claim C3, amended. \<open>fetchWithRetries\<close> (with \<open>maxRetries \<ge> 0\<close>) returns the first
  response whose status is below 500, with no further attempt; it goes on to another
  attempt only after a network-level failure or a status of 500 or more; against an
  upstream that fails in this way at every attempt it makes exactly \<open>maxRetries + 1\<close>
  attempts and throws the error of the last one; and the delay before retry \<open>n\<close>
  (counted from 1) is \<open>Math.round(backoffBaseMs * 2^(n-1) * jitter)\<close>, computed in
  double arithmetic, with \<open>jitter = 0.75 + 0.5 * Math.random()\<close> in \<open>[0.75, 1.25]\<close>: the
  lower end is reached for the draw 0 and the upper end for the largest draw below 1.
  The delay is finite, and the formula stands without overflow, for \<open>n \<le> 1024\<close> and
  \<open>0 \<le> backoffBaseMs * 2^(n-1) \<le> 2^1023\<close>; it then differs from the product of the
  rounded \<open>backoffBaseMs * 2^(n-1)\<close> and the jitter by half a millisecond and half the
  distance of neighbouring doubles at most.
\<close>

theorem fetchWithRetries_policy:
  assumes "0 \<le> retries"
  shows "(\<forall>n st b. int n \<le> retries \<and> (\<forall>k<n. retryable (upstream k)) \<and>
                  upstream n = Resp st b \<and> st < 500 \<longrightarrow>
            fetchWithRetries upstream rand retries backoffBase =
              \<lparr> outcome = Resp st b, calls = n + 1,
                delays = backoff_delays backoffBase rand 1 (int n) \<rparr>) \<and>
         ((\<forall>k. int k \<le> retries \<longrightarrow> retryable (upstream k)) \<longrightarrow>
            fetchWithRetries upstream rand retries backoffBase =
              \<lparr> outcome = Threw (failure_of (upstream (nat retries))),
                calls = nat retries + 1,
                delays = backoff_delays backoffBase rand 1 retries \<rparr>) \<and>
         (\<forall>r. 0 \<le> r \<and> r < 1 \<longrightarrow> 3 / 4 \<le> jitter r \<and> jitter r \<le> 5 / 4) \<and>
         jitter 0 = 3 / 4 \<and> jitter (1 - 1 / 2 ^ 53) = 5 / 4 \<and>
         (\<forall>n r. 1 \<le> n \<and> n \<le> 1024 \<and> 0 \<le> r \<and> r < 1 \<and>
                0 \<le> backoffBase \<and> backoffBase * 2 ^ nat (n - 1) \<le> 2 ^ 1023 \<longrightarrow>
            backoff_delay backoffBase n r
              = Fin (of_int \<lfloor>to_double (to_double (backoffBase * 2 ^ nat (n - 1)) * jitter r)
                             + 1 / 2\<rfloor>) \<and>
            \<bar>of_int \<lfloor>to_double (to_double (backoffBase * 2 ^ nat (n - 1)) * jitter r) + 1 / 2\<rfloor>
               - to_double (backoffBase * 2 ^ nat (n - 1)) * jitter r\<bar>
              \<le> 1 / 2 + ulp (to_double (backoffBase * 2 ^ nat (n - 1)) * jitter r) / 2) \<and>
         (\<forall>a b. backoff_delays backoffBase rand a b
                  = map (\<lambda>n. backoff_delay backoffBase n (rand (nat (n - 1)))) [a..b])"
proof -
  have one: "\<forall>n st b. int n \<le> retries \<and> (\<forall>k<n. retryable (upstream k)) \<and>
                  upstream n = Resp st b \<and> st < 500 \<longrightarrow>
            fetchWithRetries upstream rand retries backoffBase =
              \<lparr> outcome = Resp st b, calls = n + 1,
                delays = backoff_delays backoffBase rand 1 (int n) \<rparr>"
  proof (intro allI impI)
    fix n st b
    assume h: "int n \<le> retries \<and> (\<forall>k<n. retryable (upstream k)) \<and>
                  upstream n = Resp st b \<and> st < 500"
    then have all: "\<forall>k. 0 \<le> int k \<and> k < n \<longrightarrow> retryable (upstream k)" by simp
    from h have a: "int n \<le> retries" and u: "upstream n = Resp st b" and s: "st < 500"
      by simp_all
    show "fetchWithRetries upstream rand retries backoffBase =
              \<lparr> outcome = Resp st b, calls = n + 1,
                delays = backoff_delays backoffBase rand 1 (int n) \<rparr>"
      using retry_loop_succeeds[where attempt=0 and n=n and retries=retries
              and upstream=upstream and ds="[]", OF _ _ a all u s]
      by (simp add: fetchWithRetries_def)
  qed
  have two: "(\<forall>k. int k \<le> retries \<longrightarrow> retryable (upstream k)) \<longrightarrow>
            fetchWithRetries upstream rand retries backoffBase =
              \<lparr> outcome = Threw (failure_of (upstream (nat retries))),
                calls = nat retries + 1,
                delays = backoff_delays backoffBase rand 1 retries \<rparr>"
  proof
    assume "\<forall>k. int k \<le> retries \<longrightarrow> retryable (upstream k)"
    then have all: "\<forall>k. 0 \<le> int k \<and> int k \<le> retries \<longrightarrow> retryable (upstream k)" by simp
    show "fetchWithRetries upstream rand retries backoffBase =
              \<lparr> outcome = Threw (failure_of (upstream (nat retries))),
                calls = nat retries + 1,
                delays = backoff_delays backoffBase rand 1 retries \<rparr>"
      using retry_loop_fails[where attempt=0 and retries=retries and upstream=upstream
              and ds="[]", OF _ assms all]
      by (simp add: fetchWithRetries_def)
  qed
  have three: "\<forall>r. 0 \<le> r \<and> r < 1 \<longrightarrow> 3 / 4 \<le> jitter r \<and> jitter r \<le> 5 / 4"
    using jitter_range by simp
  have lo: "jitter 0 = 3 / 4" and hi: "jitter (1 - 1 / 2 ^ 53) = 5 / 4"
    by (rule jitter_ends)+
  have four: "\<forall>n r. 1 \<le> n \<and> n \<le> 1024 \<and> 0 \<le> r \<and> r < 1 \<and>
                0 \<le> backoffBase \<and> backoffBase * 2 ^ nat (n - 1) \<le> 2 ^ 1023 \<longrightarrow>
            backoff_delay backoffBase n r
              = Fin (of_int \<lfloor>to_double (to_double (backoffBase * 2 ^ nat (n - 1)) * jitter r)
                             + 1 / 2\<rfloor>) \<and>
            \<bar>of_int \<lfloor>to_double (to_double (backoffBase * 2 ^ nat (n - 1)) * jitter r) + 1 / 2\<rfloor>
               - to_double (backoffBase * 2 ^ nat (n - 1)) * jitter r\<bar>
              \<le> 1 / 2 + ulp (to_double (backoffBase * 2 ^ nat (n - 1)) * jitter r) / 2"
    using backoff_delay_finite round_half_up_near by blast
  have five: "\<forall>a b. backoff_delays backoffBase rand a b
                  = map (\<lambda>n. backoff_delay backoffBase n (rand (nat (n - 1)))) [a..b]"
    by (simp add: backoff_delays_def)
  show ?thesis
    by (intro conjI) (rule one two three lo hi four five)+
qed

text \<open>
  An upstream that always answers 503 is called three times for \<open>maxRetries = 2\<close>, and an
  upstream that answers 404 is called once. With the default base of 300 ms and the
  draw \<open>0.005\<close> the second delay is 451 ms: in double arithmetic the product is
  \<open>451.49999999999994\<close>, below the \<open>451.5\<close> that the formula gives over the reals.
\<close>

theorem fetchWithRetries_policy_witness:
  "calls (fetchWithRetries always_503 draws_quarter 2 300) = 3 \<and>
   outcome (fetchWithRetries always_503 draws_quarter 2 300)
     = Threw (Error ''Upstream responded '' (Some 503)) \<and>
   fetchWithRetries always_404 draws_quarter 2 300
     = \<lparr> outcome = Resp 404 None, calls = 1, delays = [] \<rparr> \<and>
   backoff_delay 300 2 (to_double (1 / 200)) = Fin 451 \<and>
   to_double (to_double (300 * 2 ^ nat (2 - 1)) * jitter (to_double (1 / 200))) < 903 / 2"
proof -
  have r: "\<forall>k. int k \<le> 2 \<longrightarrow> retryable (always_503 k)"
    by (simp add: retryable_def always_503_def)
  have p: "(0::int) \<le> 2" by simp
  note T = fetchWithRetries_policy[OF p]
  have a: "fetchWithRetries always_503 draws_quarter 2 300 =
             \<lparr> outcome = Threw (failure_of (always_503 (nat 2))), calls = nat 2 + 1,
               delays = backoff_delays 300 draws_quarter 1 2 \<rparr>"
    using T[of always_503 draws_quarter 300] r by blast
  have "int 0 \<le> 2 \<and> (\<forall>k<0. retryable (always_404 k)) \<and>
          always_404 0 = Resp 404 None \<and> (404::nat) < 500"
    by (simp add: always_404_def)
  then have b: "fetchWithRetries always_404 draws_quarter 2 300 =
             \<lparr> outcome = Resp 404 None, calls = 0 + 1,
               delays = backoff_delays 300 draws_quarter 1 (int 0) \<rparr>"
    using T[of always_404 draws_quarter 300] by blast
  have dr: "0 \<le> to_double (1 / 200) \<and> to_double (1 / 200) < 1"
    by code_simp
  then have "(1::int) \<le> 2 \<and> (2::int) \<le> 1024 \<and>
          0 \<le> to_double (1 / 200) \<and> to_double (1 / 200) < 1 \<and>
          (0::real) \<le> 300 \<and> (300::real) * 2 ^ nat (2 - 1) \<le> 2 ^ 1023"
    by (simp add: below_overflow)
  then have c: "backoff_delay 300 2 (to_double (1 / 200)) =
      Fin (of_int \<lfloor>to_double (to_double (300 * 2 ^ nat (2 - 1)) * jitter (to_double (1 / 200))) + 1 / 2\<rfloor>)"
    using T[of always_503 draws_quarter 300] by blast
  have v: "\<lfloor>to_double (to_double (300 * 2 ^ nat (2 - 1)) * jitter (to_double (1 / 200))) + 1 / 2\<rfloor> = 451"
    by (rule delay_values)
  have w: "to_double (to_double (300 * 2 ^ nat (2 - 1)) * jitter (to_double (1 / 200))) < 903 / 2"
    by code_simp
  have d: "backoff_delay 300 2 (to_double (1 / 200)) = Fin 451"
    unfolding c v by simp
  show ?thesis
    using w by (simp add: a b d failure_of_def always_503_def backoff_delays_def)
qed

section \<open>The forecast handler\<close>

lemma cache_miss_later:
  "cache_get c now0 k = None \<Longrightarrow> now0 \<le> now \<Longrightarrow> cache_get c now k = None"
  by (auto simp: cache_get_def split: option.splits if_splits)

lemma forecast_use_mock:
  assumes "city = trim (string_of (js_or q_city (Some [])))" and "city \<noteq> []"
    and "cache_get c now (ForecastKey (toLowerCase city)) = None"
  shows "forecast_handler c now True gen q_city nom met lw =
           (reply 200 (mock_body (FString city) (FNumber (Fin 0)) (FNumber (Fin 0))
                         (gen ''0'' ''0'')), c)"
  using assms
  by (simp add: forecast_handler_def Let_def mock_body_def with_prop_def)

lemma forecast_fallback_mock:
  assumes "city = trim (string_of (js_or q_city (Some [])))" and "city \<noteq> []"
    and "cache_get c now (ForecastKey (toLowerCase city)) = None"
    and "nom = Resp st (Some (pl # rest))" and "ok st" and "both_failed met lw"
  shows "forecast_handler c now False gen q_city nom met lw =
           (reply 200 (mock_body (FString (name_or (display_name pl) city))
                         (FString (p_lat pl)) (FString (p_lon pl))
                         (gen (p_lat pl) (p_lon pl))), c)"
  using assms
  by (simp add: forecast_handler_def Let_def mock_body_def with_prop_def both_failed_def)

text \<open>
  Claim C7. When the forecast handler replies with a generated mock forecast, because
  \<open>USE_MOCK\<close> is set or because the full and the lightweight upstream request both
  failed, the reply has status 200, \<open>mock = true\<close> and \<open>cached = false\<close>, and the cache is
  as it was. So this holds again for every later request with the same city (as long as
  nothing else fills the key): it is answered with the mock generated at that request.
\<close>

theorem mock_forecast_not_cached:
  assumes "city = trim (string_of (js_or q_city (Some [])))" and "city \<noteq> []"
    and "cache_get c now0 (ForecastKey (toLowerCase city)) = None" and "now0 \<le> now"
  shows "(use_mock \<longrightarrow>
            forecast_handler c now use_mock gen q_city nom met lw =
              (reply 200 (mock_body (FString city) (FNumber (Fin 0)) (FNumber (Fin 0))
                            (gen ''0'' ''0'')), c)) \<and>
         (\<not> use_mock \<and> nom = Resp st (Some (pl # rest)) \<and> ok st \<and> both_failed met lw \<longrightarrow>
            forecast_handler c now use_mock gen q_city nom met lw =
              (reply 200 (mock_body (FString (name_or (display_name pl) city))
                            (FString (p_lat pl)) (FString (p_lon pl))
                            (gen (p_lat pl) (p_lon pl))), c)) \<and>
         status (reply 200 (mock_body loc la lo m)) = 200 \<and>
         map_of (mock_body loc la lo m) ''mock'' = Some (FBool True) \<and>
         map_of (mock_body loc la lo m) ''cached'' = Some (FBool False) \<and>
         map_of (mock_body loc la lo m) ''forecast'' = Some (FForecast (Mock m))"
proof -
  have miss: "cache_get c now (ForecastKey (toLowerCase city)) = None"
    using assms(3,4) by (rule cache_miss_later)
  have a: "use_mock \<longrightarrow>
            forecast_handler c now use_mock gen q_city nom met lw =
              (reply 200 (mock_body (FString city) (FNumber (Fin 0)) (FNumber (Fin 0))
                            (gen ''0'' ''0'')), c)"
    using forecast_use_mock[OF assms(1,2) miss] by simp
  have b: "\<not> use_mock \<and> nom = Resp st (Some (pl # rest)) \<and> ok st \<and> both_failed met lw \<longrightarrow>
            forecast_handler c now use_mock gen q_city nom met lw =
              (reply 200 (mock_body (FString (name_or (display_name pl) city))
                            (FString (p_lat pl)) (FString (p_lon pl))
                            (gen (p_lat pl) (p_lon pl))), c)"
    using forecast_fallback_mock[OF assms(1,2) miss] by simp
  have c: "status (reply 200 (mock_body loc la lo m)) = 200"
      "map_of (mock_body loc la lo m) ''mock'' = Some (FBool True)"
      "map_of (mock_body loc la lo m) ''cached'' = Some (FBool False)"
      "map_of (mock_body loc la lo m) ''forecast'' = Some (FForecast (Mock m))"
    by (simp_all add: reply_def mock_body_def)
  show ?thesis
    by (intro conjI) (rule a b c)+
qed

text \<open>
  With \<open>USE_MOCK\<close> set, a request for Dhaka and its immediate repetition each get the
  mock generated for them; without it, a geocoded request whose full request times out
  and whose lightweight request is answered 503 gets a mock as well.
\<close>

theorem mock_forecast_not_cached_witness:
  "forecast_handler Map.empty 0 True first_mock (Some ''Dhaka'')
       (Threw AbortError) (Threw AbortError) (Threw AbortError)
     = (reply 200 (mock_body (FString ''Dhaka'') (FNumber (Fin 0)) (FNumber (Fin 0))
                     ''{temperature: 14.2}''), Map.empty) \<and>
   forecast_handler Map.empty 1 True second_mock (Some ''Dhaka'')
       (Threw AbortError) (Threw AbortError) (Threw AbortError)
     = (reply 200 (mock_body (FString ''Dhaka'') (FNumber (Fin 0)) (FNumber (Fin 0))
                     ''{temperature: 15.1}''), Map.empty) \<and>
   forecast_handler Map.empty 1 False second_mock (Some ''Dhaka'')
       (Resp 200 (Some [dhaka])) (Threw AbortError) (Resp 503 None)
     = (reply 200 (mock_body (FString ''Dhaka, Bangladesh'') (FString ''23.76'')
                     (FString ''90.38'') ''{temperature: 15.1}''), Map.empty)"
proof -
  have city: "''Dhaka'' = trim (string_of (js_or (Some ''Dhaka'') (Some [])))"
    by code_simp
  have ne: "''Dhaka'' \<noteq> []" by simp
  have miss: "cache_get Map.empty 0 (ForecastKey (toLowerCase ''Dhaka'')) = None"
    by (simp add: cache_get_def)
  have f: "both_failed (Threw AbortError) (Resp 503 None)"
    by (simp add: both_failed_def forecast_attempt_def ok_def)
  have k: "ok 200" by (simp add: ok_def)
  have n: "name_or (display_name dhaka) ''Dhaka'' = ''Dhaka, Bangladesh''"
    by (simp add: name_or_def dhaka_def falsy_def string_of_def)
  note T = mock_forecast_not_cached[OF city ne miss]
  show ?thesis
    using T[where now=0 and use_mock=True and gen=first_mock and nom="Threw AbortError"
              and met="Threw AbortError" and lw="Threw AbortError"]
          T[where now=1 and use_mock=True and gen=second_mock and nom="Threw AbortError"
              and met="Threw AbortError" and lw="Threw AbortError"]
          T[where now=1 and use_mock=False and gen=second_mock
              and nom="Resp 200 (Some [dhaka])" and st=200 and pl=dhaka and rest="[]"
              and met="Threw AbortError" and lw="Resp 503 None"] f k
    by (simp add: first_mock_def second_mock_def n) (simp add: dhaka_def)
qed

section \<open>The cache in the four handlers\<close>

lemma cache_get_set:
  "cache_get (cache_set c t k v ttl) now k =
     (if t + (case ttl of None \<Rightarrow> stdTTL | Some x \<Rightarrow> x) * 1000 < now then None else Some v)"
  by (simp add: cache_get_def cache_set_def)

lemma cache_get_live:
  "cache_get c now k = Some v \<Longrightarrow> \<exists>e. c k = Some e \<and> c_value e = v \<and> \<not> expiresAt e < now"
  by (auto simp: cache_get_def split: option.splits if_splits)

lemma with_prop_cached: "map_of (with_prop p ''cached'' v) ''cached'' = Some v"
  by (simp add: with_prop_def update_conv')

lemma map_of_with_prop:
  "map_of (with_prop p k v) k' = (if k' = k then Some v else map_of p k')"
  by (simp add: with_prop_def update_conv')

lemma error_response_not_cached:
  "map_of (body (error_response e)) ''cached'' = None"
  by (simp add: error_response_def)

subsection \<open>When two requests have the same key\<close>

lemma forecast_cacheKey_eq:
  "forecast_cacheKey q' = forecast_cacheKey q \<longleftrightarrow>
     toLowerCase (trim (string_of (js_or q' (Some []))))
       = toLowerCase (trim (string_of (js_or q (Some []))))"
  by (simp add: forecast_cacheKey_def ForecastKey_def)

lemma aq_cacheKey_eq:
  "aq_cacheKey a' b' x' y' = aq_cacheKey a b x y \<longleftrightarrow>
     string_of (js_or a' b') @ '':'' @ string_of (js_or x' y')
       = string_of (js_or a b) @ '':'' @ string_of (js_or x y)"
  by (simp add: aq_cacheKey_def AqKey_def)

lemma climate_cacheKey_eq:
  "climate_cacheKey a' b' x' y' yrs' = climate_cacheKey a b x y yrs \<longleftrightarrow>
     string_of (js_or a' b') @ '':'' @ string_of (js_or x' y') @ '':'' @ decimal (clampYears yrs')
       = string_of (js_or a b) @ '':'' @ string_of (js_or x y) @ '':'' @ decimal (clampYears yrs)"
  by (simp add: climate_cacheKey_def ClimateKey_def)

lemma marine_cacheKey_eq:
  "marine_cacheKey q' = marine_cacheKey q \<longleftrightarrow>
     parseFloat (js_or (q_lat q') (q_latitude q')) = parseFloat (js_or (q_lat q) (q_latitude q)) \<and>
     parseFloat (js_or (q_lon q') (q_longitude q'))
       = parseFloat (js_or (q_lon q) (q_longitude q)) \<and>
     max0 (parseInt_or (q_forecast_minutely_15 q') ''96'')
       = max0 (parseInt_or (q_forecast_minutely_15 q) ''96'') \<and>
     max0 (parseInt_or (q_past_minutely_15 q') ''0'')
       = max0 (parseInt_or (q_past_minutely_15 q) ''0'')"
  by (simp add: marine_cacheKey_def)

text \<open>
  The template string of the air-quality handler does not tell where the latitude ends:
  two requests with different coordinates can have one key.
\<close>

lemma aq_keys_collide:
  "aq_cacheKey (Some ''1:2'') None (Some ''3'') None
     = aq_cacheKey (Some ''1'') None (Some ''2:3'') None"
  by (simp add: aq_cacheKey_def AqKey_def js_or_def falsy_def string_of_def)

lemma forecast_key_city:
  assumes "forecast_cacheKey q' = forecast_cacheKey q"
    and "trim (string_of (js_or q (Some []))) \<noteq> []"
  shows "trim (string_of (js_or q' (Some []))) \<noteq> []"
proof
  assume "trim (string_of (js_or q' (Some []))) = []"
  then have "toLowerCase (trim (string_of (js_or q (Some [])))) = []"
    using assms(1) by (simp add: forecast_cacheKey_eq toLowerCase_def)
  then show False using assms(2) by (simp add: toLowerCase_def)
qed

subsection \<open>Hit, miss and the request that fills the cache\<close>

lemma forecast_hit:
  assumes "trim (string_of (js_or q_city (Some []))) \<noteq> []"
    and "cache_get c now (forecast_cacheKey q_city) = Some p"
  shows "forecast_handler c now use_mock gen q_city nom met lw =
           (reply 200 (with_prop p ''cached'' (FBool True)), c)"
  using assms by (simp add: forecast_handler_def Let_def forecast_cacheKey_def)

lemma forecast_populates:
  assumes "snd (forecast_handler c now use_mock gen q_city nom met lw) \<noteq> c"
  shows "\<exists>p. trim (string_of (js_or q_city (Some []))) \<noteq> [] \<and>
           forecast_handler c now use_mock gen q_city nom met lw =
             (reply 200 (with_prop p ''cached'' (FBool False)),
              cache_set c now (forecast_cacheKey q_city) p None)"
  using assms
  by (auto simp: forecast_handler_def Let_def forecast_cacheKey_def
           split: if_splits option.splits fetched.splits list.splits)

lemma forecast_miss:
  assumes "cache_get c now (forecast_cacheKey q_city) = None"
  shows "map_of (body (fst (forecast_handler c now use_mock gen q_city nom met lw))) ''cached''
           \<noteq> Some (FBool True)"
  using assms
  by (auto simp: forecast_handler_def Let_def reply_def map_of_with_prop forecast_cacheKey_def
                 error_response_not_cached
           split: if_splits option.splits fetched.splits list.splits)

lemma marine_hit:
  assumes "parseFloat (js_or (q_lat q) (q_latitude q)) \<noteq> NaN"
    and "parseFloat (js_or (q_lon q) (q_longitude q)) \<noteq> NaN"
    and "cache_get c now (marine_cacheKey q) = Some p"
  shows "marine_handler c now q first second = (reply 200 (with_prop p ''cached'' (FBool True)), c)"
  using assms by (simp add: marine_handler_def Let_def marine_cacheKey_def)

lemma marine_populates:
  assumes "snd (marine_handler c now q first second) \<noteq> c"
  shows "\<exists>p. parseFloat (js_or (q_lat q) (q_latitude q)) \<noteq> NaN \<and>
           parseFloat (js_or (q_lon q) (q_longitude q)) \<noteq> NaN \<and>
           marine_handler c now q first second =
             (reply 200 (with_prop p ''cached'' (FBool False)),
              cache_set c now (marine_cacheKey q) p (Some (60 * 5)))"
  using assms
  by (auto simp: marine_handler_def Let_def marine_cacheKey_def
           split: if_splits option.splits sum.splits)

lemma marine_miss:
  assumes "cache_get c now (marine_cacheKey q) = None"
  shows "map_of (body (fst (marine_handler c now q first second))) ''cached''
           \<noteq> Some (FBool True)"
  using assms
  by (auto simp: marine_handler_def Let_def reply_def map_of_with_prop marine_cacheKey_def
                 error_response_not_cached
           split: if_splits option.splits sum.splits)

lemma aq_hit:
  assumes "\<not> falsy (js_or a b)" and "\<not> falsy (js_or x y)"
    and "cache_get c now (aq_cacheKey a b x y) = Some p"
  shows "aq_handler c now a b x y work = (reply 200 (with_prop p ''cached'' (FBool True)), c)"
  using assms by (simp add: aq_handler_def Let_def aq_cacheKey_def)

lemma aq_populates:
  assumes "snd (aq_handler c now a b x y work) \<noteq> c"
  shows "\<exists>p. aq_handler c now a b x y work =
             (reply 200 (with_prop p ''cached'' (FBool False)),
              cache_set c now (aq_cacheKey a b x y) p (Some (60 * 5)))"
  using assms
  by (auto simp: aq_handler_def Let_def aq_cacheKey_def
           split: if_splits option.splits computed.splits)

lemma aq_miss:
  assumes "cache_get c now (aq_cacheKey a b x y) = None"
  shows "map_of (body (fst (aq_handler c now a b x y work))) ''cached'' \<noteq> Some (FBool True)"
  using assms
  by (auto simp: aq_handler_def Let_def reply_def map_of_with_prop error_response_not_cached
                 aq_cacheKey_def
           split: if_splits option.splits computed.splits)

lemma climate_hit:
  assumes "\<not> falsy (js_or a b)" and "\<not> falsy (js_or x y)"
    and "cache_get c now (climate_cacheKey a b x y yrs) = Some p"
  shows "climate_handler c now a b x y yrs work
           = (reply 200 (with_prop p ''cached'' (FBool True)), c)"
  using assms by (simp add: climate_handler_def Let_def climate_cacheKey_def)

lemma climate_populates:
  assumes "snd (climate_handler c now a b x y yrs work) \<noteq> c"
  shows "\<exists>p. climate_handler c now a b x y yrs work =
             (reply 200 (with_prop p ''cached'' (FBool False)),
              cache_set c now (climate_cacheKey a b x y yrs) p (Some (60 * 60 * 24)))"
  using assms
  by (auto simp: climate_handler_def Let_def climate_cacheKey_def
           split: if_splits option.splits computed.splits)

lemma climate_miss:
  assumes "cache_get c now (climate_cacheKey a b x y yrs) = None"
  shows "map_of (body (fst (climate_handler c now a b x y yrs work))) ''cached''
           \<noteq> Some (FBool True)"
  using assms
  by (auto simp: climate_handler_def Let_def reply_def map_of_with_prop
                 error_response_not_cached climate_cacheKey_def
           split: if_splits option.splits computed.splits)

subsection \<open>A filled key within and after its time to live\<close>

lemma forecast_cached:
  assumes "c' = snd (forecast_handler c now use_mock gen q_city nom met lw)" and "c' \<noteq> c"
  shows "\<exists>p. forecast_handler c now use_mock gen q_city nom met lw
               = (reply 200 (with_prop p ''cached'' (FBool False)),
                  cache_set c now (forecast_cacheKey q_city) p None) \<and>
             (\<forall>now' use_mock' gen' q_city' nom' met' lw'.
                forecast_cacheKey q_city' = forecast_cacheKey q_city \<and>
                now' \<le> now + 10 * 60 * 1000 \<longrightarrow>
                forecast_handler c' now' use_mock' gen' q_city' nom' met' lw'
                  = (reply 200 (with_prop p ''cached'' (FBool True)), c')) \<and>
             (\<forall>now' use_mock' gen' q_city' nom' met' lw'.
                forecast_cacheKey q_city' = forecast_cacheKey q_city \<and>
                now + 10 * 60 * 1000 < now' \<longrightarrow>
                map_of (body (fst (forecast_handler c' now' use_mock' gen' q_city' nom' met' lw')))
                  ''cached'' \<noteq> Some (FBool True))"
proof -
  from forecast_populates[of c now use_mock gen q_city nom met lw] assms
  obtain p where ne: "trim (string_of (js_or q_city (Some []))) \<noteq> []"
    and eq: "forecast_handler c now use_mock gen q_city nom met lw =
             (reply 200 (with_prop p ''cached'' (FBool False)),
              cache_set c now (forecast_cacheKey q_city) p None)"
    by blast
  have c': "c' = cache_set c now (forecast_cacheKey q_city) p None"
    using assms(1) eq by simp
  show ?thesis
  proof (intro exI[of _ p] conjI allI impI)
    show "forecast_handler c now use_mock gen q_city nom met lw
               = (reply 200 (with_prop p ''cached'' (FBool False)),
                  cache_set c now (forecast_cacheKey q_city) p None)"
      by (rule eq)
  next
    fix now' :: int and use_mock' gen' q_city' nom' met' lw'
    assume h: "forecast_cacheKey q_city' = forecast_cacheKey q_city \<and>
               now' \<le> now + 10 * 60 * 1000"
    then have k: "forecast_cacheKey q_city' = forecast_cacheKey q_city" by simp
    have g: "cache_get c' now' (forecast_cacheKey q_city') = Some p"
      using h by (simp add: c' cache_get_set stdTTL_def)
    show "forecast_handler c' now' use_mock' gen' q_city' nom' met' lw'
                  = (reply 200 (with_prop p ''cached'' (FBool True)), c')"
      by (rule forecast_hit[OF forecast_key_city[OF k ne] g])
  next
    fix now' :: int and use_mock' gen' q_city' nom' met' lw'
    assume h: "forecast_cacheKey q_city' = forecast_cacheKey q_city \<and>
               now + 10 * 60 * 1000 < now'"
    have g: "cache_get c' now' (forecast_cacheKey q_city') = None"
      using h by (simp add: c' cache_get_set stdTTL_def)
    show "map_of (body (fst (forecast_handler c' now' use_mock' gen' q_city' nom' met' lw')))
                  ''cached'' \<noteq> Some (FBool True)"
      by (rule forecast_miss[OF g])
  qed
qed

lemma marine_cached:
  assumes "c' = snd (marine_handler c now q first second)" and "c' \<noteq> c"
  shows "\<exists>p. marine_handler c now q first second
               = (reply 200 (with_prop p ''cached'' (FBool False)),
                  cache_set c now (marine_cacheKey q) p (Some (60 * 5))) \<and>
             (\<forall>now' q' first' second'.
                marine_cacheKey q' = marine_cacheKey q \<and> now' \<le> now + 5 * 60 * 1000 \<longrightarrow>
                marine_handler c' now' q' first' second'
                  = (reply 200 (with_prop p ''cached'' (FBool True)), c')) \<and>
             (\<forall>now' q' first' second'.
                marine_cacheKey q' = marine_cacheKey q \<and> now + 5 * 60 * 1000 < now' \<longrightarrow>
                map_of (body (fst (marine_handler c' now' q' first' second')))
                  ''cached'' \<noteq> Some (FBool True))"
proof -
  from marine_populates[of c now q first second] assms
  obtain p where n1: "parseFloat (js_or (q_lat q) (q_latitude q)) \<noteq> NaN"
    and n2: "parseFloat (js_or (q_lon q) (q_longitude q)) \<noteq> NaN"
    and eq: "marine_handler c now q first second =
             (reply 200 (with_prop p ''cached'' (FBool False)),
              cache_set c now (marine_cacheKey q) p (Some (60 * 5)))"
    by blast
  have c': "c' = cache_set c now (marine_cacheKey q) p (Some (60 * 5))"
    using assms(1) eq by simp
  show ?thesis
  proof (intro exI[of _ p] conjI allI impI)
    show "marine_handler c now q first second
               = (reply 200 (with_prop p ''cached'' (FBool False)),
                  cache_set c now (marine_cacheKey q) p (Some (60 * 5)))"
      by (rule eq)
  next
    fix now' :: int and q' first' second'
    assume h: "marine_cacheKey q' = marine_cacheKey q \<and> now' \<le> now + 5 * 60 * 1000"
    then have k: "marine_cacheKey q' = marine_cacheKey q" by simp
    have m1: "parseFloat (js_or (q_lat q') (q_latitude q')) \<noteq> NaN"
      and m2: "parseFloat (js_or (q_lon q') (q_longitude q')) \<noteq> NaN"
      using k n1 n2 by (simp_all add: marine_cacheKey_eq)
    have g: "cache_get c' now' (marine_cacheKey q') = Some p"
      using h by (simp add: c' cache_get_set)
    show "marine_handler c' now' q' first' second'
                  = (reply 200 (with_prop p ''cached'' (FBool True)), c')"
      by (rule marine_hit[OF m1 m2 g])
  next
    fix now' :: int and q' first' second'
    assume h: "marine_cacheKey q' = marine_cacheKey q \<and> now + 5 * 60 * 1000 < now'"
    have g: "cache_get c' now' (marine_cacheKey q') = None"
      using h by (simp add: c' cache_get_set)
    show "map_of (body (fst (marine_handler c' now' q' first' second')))
                  ''cached'' \<noteq> Some (FBool True)"
      by (rule marine_miss[OF g])
  qed
qed

lemma aq_cached:
  assumes "c' = snd (aq_handler c now a b x y work)" and "c' \<noteq> c"
  shows "\<exists>p. aq_handler c now a b x y work
               = (reply 200 (with_prop p ''cached'' (FBool False)),
                  cache_set c now (aq_cacheKey a b x y) p (Some (60 * 5))) \<and>
             (\<forall>now' a' b' x' y' work'.
                \<not> falsy (js_or a' b') \<and> \<not> falsy (js_or x' y') \<and>
                aq_cacheKey a' b' x' y' = aq_cacheKey a b x y \<and>
                now' \<le> now + 5 * 60 * 1000 \<longrightarrow>
                aq_handler c' now' a' b' x' y' work'
                  = (reply 200 (with_prop p ''cached'' (FBool True)), c')) \<and>
             (\<forall>now' a' b' x' y' work'.
                aq_cacheKey a' b' x' y' = aq_cacheKey a b x y \<and>
                now + 5 * 60 * 1000 < now' \<longrightarrow>
                map_of (body (fst (aq_handler c' now' a' b' x' y' work')))
                  ''cached'' \<noteq> Some (FBool True))"
proof -
  from aq_populates[of c now a b x y work] assms
  obtain p where eq: "aq_handler c now a b x y work =
             (reply 200 (with_prop p ''cached'' (FBool False)),
              cache_set c now (aq_cacheKey a b x y) p (Some (60 * 5)))"
    by blast
  have c': "c' = cache_set c now (aq_cacheKey a b x y) p (Some (60 * 5))"
    using assms(1) eq by simp
  show ?thesis
  proof (intro exI[of _ p] conjI allI impI)
    show "aq_handler c now a b x y work
               = (reply 200 (with_prop p ''cached'' (FBool False)),
                  cache_set c now (aq_cacheKey a b x y) p (Some (60 * 5)))"
      by (rule eq)
  next
    fix now' :: int and a' b' x' y' work'
    assume h: "\<not> falsy (js_or a' b') \<and> \<not> falsy (js_or x' y') \<and>
               aq_cacheKey a' b' x' y' = aq_cacheKey a b x y \<and>
               now' \<le> now + 5 * 60 * 1000"
    then have v1: "\<not> falsy (js_or a' b')" and v2: "\<not> falsy (js_or x' y')" by simp_all
    have g: "cache_get c' now' (aq_cacheKey a' b' x' y') = Some p"
      using h by (simp add: c' cache_get_set)
    show "aq_handler c' now' a' b' x' y' work'
                  = (reply 200 (with_prop p ''cached'' (FBool True)), c')"
      by (rule aq_hit[OF v1 v2 g])
  next
    fix now' :: int and a' b' x' y' work'
    assume h: "aq_cacheKey a' b' x' y' = aq_cacheKey a b x y \<and> now + 5 * 60 * 1000 < now'"
    have g: "cache_get c' now' (aq_cacheKey a' b' x' y') = None"
      using h by (simp add: c' cache_get_set)
    show "map_of (body (fst (aq_handler c' now' a' b' x' y' work')))
                  ''cached'' \<noteq> Some (FBool True)"
      by (rule aq_miss[OF g])
  qed
qed

lemma climate_cached:
  assumes "c' = snd (climate_handler c now a b x y yrs work)" and "c' \<noteq> c"
  shows "\<exists>p. climate_handler c now a b x y yrs work
               = (reply 200 (with_prop p ''cached'' (FBool False)),
                  cache_set c now (climate_cacheKey a b x y yrs) p (Some (60 * 60 * 24))) \<and>
             (\<forall>now' a' b' x' y' yrs' work'.
                \<not> falsy (js_or a' b') \<and> \<not> falsy (js_or x' y') \<and>
                climate_cacheKey a' b' x' y' yrs' = climate_cacheKey a b x y yrs \<and>
                now' \<le> now + 24 * 60 * 60 * 1000 \<longrightarrow>
                climate_handler c' now' a' b' x' y' yrs' work'
                  = (reply 200 (with_prop p ''cached'' (FBool True)), c')) \<and>
             (\<forall>now' a' b' x' y' yrs' work'.
                climate_cacheKey a' b' x' y' yrs' = climate_cacheKey a b x y yrs \<and>
                now + 24 * 60 * 60 * 1000 < now' \<longrightarrow>
                map_of (body (fst (climate_handler c' now' a' b' x' y' yrs' work')))
                  ''cached'' \<noteq> Some (FBool True))"
proof -
  from climate_populates[of c now a b x y yrs work] assms
  obtain p where eq: "climate_handler c now a b x y yrs work =
             (reply 200 (with_prop p ''cached'' (FBool False)),
              cache_set c now (climate_cacheKey a b x y yrs) p (Some (60 * 60 * 24)))"
    by blast
  have c': "c' = cache_set c now (climate_cacheKey a b x y yrs) p (Some (60 * 60 * 24))"
    using assms(1) eq by simp
  show ?thesis
  proof (intro exI[of _ p] conjI allI impI)
    show "climate_handler c now a b x y yrs work
               = (reply 200 (with_prop p ''cached'' (FBool False)),
                  cache_set c now (climate_cacheKey a b x y yrs) p (Some (60 * 60 * 24)))"
      by (rule eq)
  next
    fix now' :: int and a' b' x' y' yrs' work'
    assume h: "\<not> falsy (js_or a' b') \<and> \<not> falsy (js_or x' y') \<and>
               climate_cacheKey a' b' x' y' yrs' = climate_cacheKey a b x y yrs \<and>
               now' \<le> now + 24 * 60 * 60 * 1000"
    then have v1: "\<not> falsy (js_or a' b')" and v2: "\<not> falsy (js_or x' y')" by simp_all
    have g: "cache_get c' now' (climate_cacheKey a' b' x' y' yrs') = Some p"
      using h by (simp add: c' cache_get_set)
    show "climate_handler c' now' a' b' x' y' yrs' work'
                  = (reply 200 (with_prop p ''cached'' (FBool True)), c')"
      by (rule climate_hit[OF v1 v2 g])
  next
    fix now' :: int and a' b' x' y' yrs' work'
    assume h: "climate_cacheKey a' b' x' y' yrs' = climate_cacheKey a b x y yrs \<and>
               now + 24 * 60 * 60 * 1000 < now'"
    have g: "cache_get c' now' (climate_cacheKey a' b' x' y' yrs') = None"
      using h by (simp add: c' cache_get_set)
    show "map_of (body (fst (climate_handler c' now' a' b' x' y' yrs' work')))
                  ''cached'' \<noteq> Some (FBool True)"
      by (rule climate_miss[OF g])
  qed
qed

subsection \<open>Requests that fill the empty cache\<close>

lemma cache_set_nonempty: "cache_set c t k v ttl \<noteq> Map.empty"
  by (simp add: cache_set_def)

lemma cache_set_value: "cache_set c t k v ttl = cache_set c t k v' ttl \<longleftrightarrow> v = v'"
proof
  assume "cache_set c t k v ttl = cache_set c t k v' ttl"
  then have "cache_set c t k v ttl k = cache_set c t k v' ttl k" by simp
  then show "v = v'" by (simp add: cache_set_def)
qed simp

lemma forecast_fills_cache:
  "forecast_handler Map.empty 0 False first_mock (Some ''Dhaka'')
      (Resp 200 (Some [dhaka])) (Resp 200 (Some ''{}'')) (Threw AbortError)
   = (reply 200 (with_prop dhaka_payload ''cached'' (FBool False)),
      cache_set Map.empty 0 (forecast_cacheKey (Some ''Dhaka'')) dhaka_payload None)"
proof -
  have city: "trim (string_of (js_or (Some ''Dhaka'') (Some []))) = ''Dhaka''"
    by code_simp
  show ?thesis
    by (simp add: forecast_handler_def Let_def city cache_get_def ok_def forecast_cacheKey_def
          forecast_attempt_def opt_string_def dhaka_def dhaka_payload_def)
qed

lemma marine_fills_cache:
  "marine_handler Map.empty 0 (marine_query_of ''0'' ''0'' ''0'' ''0'')
      (Resp 200 (Some hourly_doc)) (Threw AbortError)
   = (reply 200 (with_prop (marine_payload hourly_doc (Fin 0) (Fin 0) None) ''cached'' (FBool
       False)),
      cache_set Map.empty 0 (marine_cacheKey (marine_query_of ''0'' ''0'' ''0'' ''0''))
        (marine_payload hourly_doc (Fin 0) (Fin 0) None) (Some (60 * 5)))"
proof -
  have a: "max0 (parseInt_or (q_forecast_minutely_15 (marine_query_of ''0'' ''0'' ''0'' ''0''))
      ''96'')
             = Some 0"
    and b: "max0 (parseInt_or (q_past_minutely_15 (marine_query_of ''0'' ''0'' ''0'' ''0'')) ''0'')
             = Some 0"
    and la: "parseFloat (js_or (q_lat (marine_query_of ''0'' ''0'' ''0'' ''0''))
                       (q_latitude (marine_query_of ''0'' ''0'' ''0'' ''0''))) = Fin 0"
    and lo: "parseFloat (js_or (q_lon (marine_query_of ''0'' ''0'' ''0'' ''0''))
                       (q_longitude (marine_query_of ''0'' ''0'' ''0'' ''0''))) = Fin 0"
    and f: "marine_fetch (Resp 200 (Some hourly_doc)) (Threw AbortError) = Inr hourly_doc"
    and r: "resample hourly_doc (Fin 0) (Fin 0) 0 (Some 0) (Some 0) = Inr None"
    by code_simp+
  show ?thesis
    by (simp add: marine_handler_def Let_def a b la lo f r cache_get_def marine_cacheKey_def)
qed

lemma aq_fills_cache:
  "aq_handler Map.empty 0 (Some ''23.7'') None None (Some ''90.4'') (Props [(''sample'', FNull)])
   = (reply 200 (with_prop [(''lat'', FString ''23.7''), (''lon'', FString ''90.4''),
                            (''sample'', FNull), (''source'', FString ''open-meteo'')]
                   ''cached'' (FBool False)),
      cache_set Map.empty 0 (aq_cacheKey (Some ''23.7'') None None (Some ''90.4''))
        [(''lat'', FString ''23.7''), (''lon'', FString ''90.4''),
         (''sample'', FNull), (''source'', FString ''open-meteo'')] (Some (60 * 5)))"
  by (simp add: aq_handler_def Let_def js_or_def falsy_def string_of_def cache_get_def
        aq_cacheKey_def)

lemma climate_fills_cache:
  "climate_handler Map.empty 0 (Some ''23.7'') None None (Some ''90.4'') (Some ''200'')
      (Props [(''years'', FNumber (Fin 100))])
   = (reply 200 (with_prop [(''years'', FNumber (Fin 100))] ''cached'' (FBool False)),
      cache_set Map.empty 0
        (climate_cacheKey (Some ''23.7'') None None (Some ''90.4'') (Some ''200''))
        [(''years'', FNumber (Fin 100))] (Some (60 * 60 * 24)))"
  by (simp add: climate_handler_def Let_def js_or_def falsy_def string_of_def cache_get_def
        climate_cacheKey_def)

text \<open>Requests that write the parameters of the four requests above in another way.\<close>

lemma same_keys:
  "forecast_cacheKey (Some ''  DHAKA '') = forecast_cacheKey (Some ''Dhaka'')"
  "\<not> falsy (js_or None (Some ''23.7''))" "\<not> falsy (js_or (Some ''90.4'') None)"
  "aq_cacheKey None (Some ''23.7'') (Some ''90.4'') None
     = aq_cacheKey (Some ''23.7'') None None (Some ''90.4'')"
  "climate_cacheKey None (Some ''23.7'') (Some ''90.4'') None (Some ''+150.9 years'')
     = climate_cacheKey (Some ''23.7'') None None (Some ''90.4'') (Some ''200'')"
  "marine_cacheKey marine_query_alt = marine_cacheKey (marine_query_of ''0'' ''0'' ''0'' ''0'')"
  by code_simp+

lemma key_texts:
  "forecast_cacheKey (Some ''  DHAKA '') = TextKey ''forecast:dhaka''"
  "aq_cacheKey None (Some ''23.7'') (Some ''90.4'') None = TextKey ''aq:23.7:90.4''"
  "climate_cacheKey None (Some ''23.7'') (Some ''90.4'') None (Some ''+150.9 years'')
     = TextKey ''climate:23.7:90.4:100''"
  "marine_cacheKey marine_query_alt = MarineKey (Fin 0) (Fin 0) (Some 0) (Some 0)"
  by code_simp+

text \<open>
  Claim C8. For each of the four handlers: a request that fills the cache is answered
  with \<open>cached = false\<close>, and it stores its payload under its cache key with the time to
  live of the handler; every request that arrives before that time has elapsed and has
  the same cache key (for the air-quality and the climate handler: and both coordinates)
  is answered with the stored payload and \<open>cached = true\<close>, whatever the upstream would
  do; after that time no request with this key is answered from the cache. The times to
  live are 10 minutes for the forecast, 5 minutes for the air quality, 24 hours for the
  climate and 5 minutes for the marine handler. Two forecast requests have the same key
  when their cities agree after trimming and lower-casing, two marine requests when
  their parsed coordinates and steps agree, and two air-quality or climate requests
  when the texts formatted into the key agree. A cache read gives a value only from an
  entry whose expiry time has not passed.
\<close>

theorem cached_within_ttl:
  "(\<forall>c'. c' = snd (forecast_handler c now use_mock gen q_city nom met lw) \<and> c' \<noteq> c \<longrightarrow>
      (\<exists>p. forecast_handler c now use_mock gen q_city nom met lw
               = (reply 200 (with_prop p ''cached'' (FBool False)),
                  cache_set c now (forecast_cacheKey q_city) p None) \<and>
           (\<forall>now' use_mock' gen' q_city' nom' met' lw'.
              forecast_cacheKey q_city' = forecast_cacheKey q_city \<and>
              now' \<le> now + 10 * 60 * 1000 \<longrightarrow>
              forecast_handler c' now' use_mock' gen' q_city' nom' met' lw'
                = (reply 200 (with_prop p ''cached'' (FBool True)), c')) \<and>
           (\<forall>now' use_mock' gen' q_city' nom' met' lw'.
              forecast_cacheKey q_city' = forecast_cacheKey q_city \<and>
              now + 10 * 60 * 1000 < now' \<longrightarrow>
              map_of (body (fst (forecast_handler c' now' use_mock' gen' q_city' nom' met' lw')))
                ''cached'' \<noteq> Some (FBool True)))) \<and>
   (\<forall>c'. c' = snd (aq_handler c now lat latitude lon longitude work) \<and> c' \<noteq> c \<longrightarrow>
      (\<exists>p. aq_handler c now lat latitude lon longitude work
               = (reply 200 (with_prop p ''cached'' (FBool False)),
                  cache_set c now (aq_cacheKey lat latitude lon longitude) p (Some (60 * 5))) \<and>
           (\<forall>now' lat' latitude' lon' longitude' work'.
              \<not> falsy (js_or lat' latitude') \<and> \<not> falsy (js_or lon' longitude') \<and>
              aq_cacheKey lat' latitude' lon' longitude' = aq_cacheKey lat latitude lon longitude \<and>
              now' \<le> now + 5 * 60 * 1000 \<longrightarrow>
              aq_handler c' now' lat' latitude' lon' longitude' work'
                = (reply 200 (with_prop p ''cached'' (FBool True)), c')) \<and>
           (\<forall>now' lat' latitude' lon' longitude' work'.
              aq_cacheKey lat' latitude' lon' longitude' = aq_cacheKey lat latitude lon longitude \<and>
              now + 5 * 60 * 1000 < now' \<longrightarrow>
              map_of (body (fst (aq_handler c' now' lat' latitude' lon' longitude' work')))
                ''cached'' \<noteq> Some (FBool True)))) \<and>
   (\<forall>c'. c' = snd (climate_handler c now lat latitude lon longitude yrs work2) \<and> c' \<noteq> c \<longrightarrow>
      (\<exists>p. climate_handler c now lat latitude lon longitude yrs work2
               = (reply 200 (with_prop p ''cached'' (FBool False)),
                  cache_set c now (climate_cacheKey lat latitude lon longitude yrs) p
                    (Some (60 * 60 * 24))) \<and>
           (\<forall>now' lat' latitude' lon' longitude' yrs' work'.
              \<not> falsy (js_or lat' latitude') \<and> \<not> falsy (js_or lon' longitude') \<and>
              climate_cacheKey lat' latitude' lon' longitude' yrs'
                = climate_cacheKey lat latitude lon longitude yrs \<and>
              now' \<le> now + 24 * 60 * 60 * 1000 \<longrightarrow>
              climate_handler c' now' lat' latitude' lon' longitude' yrs' work'
                = (reply 200 (with_prop p ''cached'' (FBool True)), c')) \<and>
           (\<forall>now' lat' latitude' lon' longitude' yrs' work'.
              climate_cacheKey lat' latitude' lon' longitude' yrs'
                = climate_cacheKey lat latitude lon longitude yrs \<and>
              now + 24 * 60 * 60 * 1000 < now' \<longrightarrow>
              map_of (body (fst (climate_handler c' now' lat' latitude' lon' longitude' yrs'
                                   work')))
                ''cached'' \<noteq> Some (FBool True)))) \<and>
   (\<forall>c'. c' = snd (marine_handler c now q first second) \<and> c' \<noteq> c \<longrightarrow>
      (\<exists>p. marine_handler c now q first second
               = (reply 200 (with_prop p ''cached'' (FBool False)),
                  cache_set c now (marine_cacheKey q) p (Some (60 * 5))) \<and>
           (\<forall>now' q' first' second'.
              marine_cacheKey q' = marine_cacheKey q \<and> now' \<le> now + 5 * 60 * 1000 \<longrightarrow>
              marine_handler c' now' q' first' second'
                = (reply 200 (with_prop p ''cached'' (FBool True)), c')) \<and>
           (\<forall>now' q' first' second'.
              marine_cacheKey q' = marine_cacheKey q \<and> now + 5 * 60 * 1000 < now' \<longrightarrow>
              map_of (body (fst (marine_handler c' now' q' first' second')))
                ''cached'' \<noteq> Some (FBool True)))) \<and>
   (\<forall>q'. forecast_cacheKey q' = forecast_cacheKey q_city \<longleftrightarrow>
      toLowerCase (trim (string_of (js_or q' (Some []))))
        = toLowerCase (trim (string_of (js_or q_city (Some []))))) \<and>
   (\<forall>q'. marine_cacheKey q' = marine_cacheKey q \<longleftrightarrow>
      parseFloat (js_or (q_lat q') (q_latitude q')) = parseFloat (js_or (q_lat q) (q_latitude q)) \<and>
      parseFloat (js_or (q_lon q') (q_longitude q'))
        = parseFloat (js_or (q_lon q) (q_longitude q)) \<and>
      max0 (parseInt_or (q_forecast_minutely_15 q') ''96'')
        = max0 (parseInt_or (q_forecast_minutely_15 q) ''96'') \<and>
      max0 (parseInt_or (q_past_minutely_15 q') ''0'')
        = max0 (parseInt_or (q_past_minutely_15 q) ''0'')) \<and>
   (\<forall>lat' latitude' lon' longitude'.
      aq_cacheKey lat' latitude' lon' longitude' = aq_cacheKey lat latitude lon longitude \<longleftrightarrow>
      string_of (js_or lat' latitude') @ '':'' @ string_of (js_or lon' longitude')
        = string_of (js_or lat latitude) @ '':'' @ string_of (js_or lon longitude)) \<and>
   (\<forall>lat' latitude' lon' longitude' yrs'.
      climate_cacheKey lat' latitude' lon' longitude' yrs'
        = climate_cacheKey lat latitude lon longitude yrs \<longleftrightarrow>
      string_of (js_or lat' latitude') @ '':'' @ string_of (js_or lon' longitude') @ '':''
          @ decimal (clampYears yrs')
        = string_of (js_or lat latitude) @ '':'' @ string_of (js_or lon longitude) @ '':''
          @ decimal (clampYears yrs)) \<and>
   (\<forall>p v. map_of (with_prop p ''cached'' v) ''cached'' = Some v) \<and>
   (\<forall>k v. cache_get c now k = Some v \<longrightarrow>
      (\<exists>e. c k = Some e \<and> c_value e = v \<and> \<not> expiresAt e < now)) \<and>
   (\<forall>t k v ttl. cache_get (cache_set c t k v (Some ttl)) now k
      = (if t + ttl * 1000 < now then None else Some v))"
proof -
  have F: "\<forall>c'. c' = snd (forecast_handler c now use_mock gen q_city nom met lw) \<and> c' \<noteq> c \<longrightarrow>
      (\<exists>p. forecast_handler c now use_mock gen q_city nom met lw
               = (reply 200 (with_prop p ''cached'' (FBool False)),
                  cache_set c now (forecast_cacheKey q_city) p None) \<and>
           (\<forall>now' use_mock' gen' q_city' nom' met' lw'.
              forecast_cacheKey q_city' = forecast_cacheKey q_city \<and>
              now' \<le> now + 10 * 60 * 1000 \<longrightarrow>
              forecast_handler c' now' use_mock' gen' q_city' nom' met' lw'
                = (reply 200 (with_prop p ''cached'' (FBool True)), c')) \<and>
           (\<forall>now' use_mock' gen' q_city' nom' met' lw'.
              forecast_cacheKey q_city' = forecast_cacheKey q_city \<and>
              now + 10 * 60 * 1000 < now' \<longrightarrow>
              map_of (body (fst (forecast_handler c' now' use_mock' gen' q_city' nom' met' lw')))
                ''cached'' \<noteq> Some (FBool True)))"
    by (intro allI impI, elim conjE) (rule forecast_cached)
  have A: "\<forall>c'. c' = snd (aq_handler c now lat latitude lon longitude work) \<and> c' \<noteq> c \<longrightarrow>
      (\<exists>p. aq_handler c now lat latitude lon longitude work
               = (reply 200 (with_prop p ''cached'' (FBool False)),
                  cache_set c now (aq_cacheKey lat latitude lon longitude) p (Some (60 * 5))) \<and>
           (\<forall>now' lat' latitude' lon' longitude' work'.
              \<not> falsy (js_or lat' latitude') \<and> \<not> falsy (js_or lon' longitude') \<and>
              aq_cacheKey lat' latitude' lon' longitude' = aq_cacheKey lat latitude lon longitude \<and>
              now' \<le> now + 5 * 60 * 1000 \<longrightarrow>
              aq_handler c' now' lat' latitude' lon' longitude' work'
                = (reply 200 (with_prop p ''cached'' (FBool True)), c')) \<and>
           (\<forall>now' lat' latitude' lon' longitude' work'.
              aq_cacheKey lat' latitude' lon' longitude' = aq_cacheKey lat latitude lon longitude \<and>
              now + 5 * 60 * 1000 < now' \<longrightarrow>
              map_of (body (fst (aq_handler c' now' lat' latitude' lon' longitude' work')))
                ''cached'' \<noteq> Some (FBool True)))"
    by (intro allI impI, elim conjE) (rule aq_cached)
  have C: "\<forall>c'. c' = snd (climate_handler c now lat latitude lon longitude yrs work2) \<and> c' \<noteq> c \<longrightarrow>
      (\<exists>p. climate_handler c now lat latitude lon longitude yrs work2
               = (reply 200 (with_prop p ''cached'' (FBool False)),
                  cache_set c now (climate_cacheKey lat latitude lon longitude yrs) p
                    (Some (60 * 60 * 24))) \<and>
           (\<forall>now' lat' latitude' lon' longitude' yrs' work'.
              \<not> falsy (js_or lat' latitude') \<and> \<not> falsy (js_or lon' longitude') \<and>
              climate_cacheKey lat' latitude' lon' longitude' yrs'
                = climate_cacheKey lat latitude lon longitude yrs \<and>
              now' \<le> now + 24 * 60 * 60 * 1000 \<longrightarrow>
              climate_handler c' now' lat' latitude' lon' longitude' yrs' work'
                = (reply 200 (with_prop p ''cached'' (FBool True)), c')) \<and>
           (\<forall>now' lat' latitude' lon' longitude' yrs' work'.
              climate_cacheKey lat' latitude' lon' longitude' yrs'
                = climate_cacheKey lat latitude lon longitude yrs \<and>
              now + 24 * 60 * 60 * 1000 < now' \<longrightarrow>
              map_of (body (fst (climate_handler c' now' lat' latitude' lon' longitude' yrs'
                                   work')))
                ''cached'' \<noteq> Some (FBool True)))"
    by (intro allI impI, elim conjE) (rule climate_cached)
  have M: "\<forall>c'. c' = snd (marine_handler c now q first second) \<and> c' \<noteq> c \<longrightarrow>
      (\<exists>p. marine_handler c now q first second
               = (reply 200 (with_prop p ''cached'' (FBool False)),
                  cache_set c now (marine_cacheKey q) p (Some (60 * 5))) \<and>
           (\<forall>now' q' first' second'.
              marine_cacheKey q' = marine_cacheKey q \<and> now' \<le> now + 5 * 60 * 1000 \<longrightarrow>
              marine_handler c' now' q' first' second'
                = (reply 200 (with_prop p ''cached'' (FBool True)), c')) \<and>
           (\<forall>now' q' first' second'.
              marine_cacheKey q' = marine_cacheKey q \<and> now + 5 * 60 * 1000 < now' \<longrightarrow>
              map_of (body (fst (marine_handler c' now' q' first' second')))
                ''cached'' \<noteq> Some (FBool True)))"
    by (intro allI impI, elim conjE) (rule marine_cached)
  have K1: "\<forall>q'. forecast_cacheKey q' = forecast_cacheKey q_city \<longleftrightarrow>
      toLowerCase (trim (string_of (js_or q' (Some []))))
        = toLowerCase (trim (string_of (js_or q_city (Some []))))"
    by (simp only: forecast_cacheKey_eq) simp
  have K2: "\<forall>q'. marine_cacheKey q' = marine_cacheKey q \<longleftrightarrow>
      parseFloat (js_or (q_lat q') (q_latitude q')) = parseFloat (js_or (q_lat q) (q_latitude q)) \<and>
      parseFloat (js_or (q_lon q') (q_longitude q'))
        = parseFloat (js_or (q_lon q) (q_longitude q)) \<and>
      max0 (parseInt_or (q_forecast_minutely_15 q') ''96'')
        = max0 (parseInt_or (q_forecast_minutely_15 q) ''96'') \<and>
      max0 (parseInt_or (q_past_minutely_15 q') ''0'')
        = max0 (parseInt_or (q_past_minutely_15 q) ''0'')"
    by (simp only: marine_cacheKey_eq) simp
  have K3: "\<forall>lat' latitude' lon' longitude'.
      aq_cacheKey lat' latitude' lon' longitude' = aq_cacheKey lat latitude lon longitude \<longleftrightarrow>
      string_of (js_or lat' latitude') @ '':'' @ string_of (js_or lon' longitude')
        = string_of (js_or lat latitude) @ '':'' @ string_of (js_or lon longitude)"
    by (simp only: aq_cacheKey_eq) simp
  have K4: "\<forall>lat' latitude' lon' longitude' yrs'.
      climate_cacheKey lat' latitude' lon' longitude' yrs'
        = climate_cacheKey lat latitude lon longitude yrs \<longleftrightarrow>
      string_of (js_or lat' latitude') @ '':'' @ string_of (js_or lon' longitude') @ '':''
          @ decimal (clampYears yrs')
        = string_of (js_or lat latitude) @ '':'' @ string_of (js_or lon longitude) @ '':''
          @ decimal (clampYears yrs)"
    by (simp only: climate_cacheKey_eq) simp
  have W: "\<forall>p v. map_of (with_prop p ''cached'' v) ''cached'' = Some v"
    by (simp add: with_prop_cached)
  have L: "\<forall>k v. cache_get c now k = Some v \<longrightarrow>
      (\<exists>e. c k = Some e \<and> c_value e = v \<and> \<not> expiresAt e < now)"
    using cache_get_live by blast
  have S: "\<forall>t k v ttl. cache_get (cache_set c t k v (Some ttl)) now k
      = (if t + ttl * 1000 < now then None else Some v)"
    by (simp add: cache_get_set)
  show ?thesis
    by (intro conjI) (rule F A C M K1 K2 K3 K4 W L S)+
qed

text \<open>
  A forecast request for Dhaka, an air-quality, a climate and a marine request fill the
  empty cache at time 0. Requests that write the same parameters in another way (the
  city in capitals between blanks, the other names of the coordinates, years that the
  clamp makes 100 as well, numbers with a fraction or an exponent) are answered with
  the stored payload at the last millisecond of its time to live, with every upstream
  down, and not a millisecond later.
\<close>

theorem cached_within_ttl_witness:
  "(\<exists>c'. c' \<noteq> Map.empty \<and>
      c' = snd (forecast_handler Map.empty 0 False first_mock (Some ''Dhaka'')
                  (Resp 200 (Some [dhaka])) (Resp 200 (Some ''{}'')) (Threw AbortError)) \<and>
      fst (forecast_handler c' 600000 False first_mock (Some ''  DHAKA '')
                  (Threw AbortError) (Threw AbortError) (Threw AbortError))
        = reply 200 (with_prop dhaka_payload ''cached'' (FBool True)) \<and>
      map_of (body (fst (forecast_handler c' 600001 False first_mock (Some ''  DHAKA '')
                  (Threw AbortError) (Threw AbortError) (Threw AbortError)))) ''cached''
        \<noteq> Some (FBool True)) \<and>
   (\<exists>c'. c' \<noteq> Map.empty \<and>
      c' = snd (aq_handler Map.empty 0 (Some ''23.7'') None None (Some ''90.4'')
                  (Props [(''sample'', FNull)])) \<and>
      fst (aq_handler c' 300000 None (Some ''23.7'') (Some ''90.4'') None (Thrown AbortError))
        = reply 200 (with_prop [(''lat'', FString ''23.7''), (''lon'', FString ''90.4''),
                                (''sample'', FNull), (''source'', FString ''open-meteo'')]
                       ''cached'' (FBool True)) \<and>
      map_of (body (fst (aq_handler c' 300001 None (Some ''23.7'') (Some ''90.4'') None
                  (Thrown AbortError)))) ''cached'' \<noteq> Some (FBool True)) \<and>
   (\<exists>c'. c' \<noteq> Map.empty \<and>
      c' = snd (climate_handler Map.empty 0 (Some ''23.7'') None None (Some ''90.4'')
                  (Some ''200'') (Props [(''years'', FNumber (Fin 100))])) \<and>
      fst (climate_handler c' 86400000 None (Some ''23.7'') (Some ''90.4'') None
                  (Some ''+150.9 years'') (Thrown AbortError))
        = reply 200 (with_prop [(''years'', FNumber (Fin 100))] ''cached'' (FBool True)) \<and>
      map_of (body (fst (climate_handler c' 86400001 None (Some ''23.7'') (Some ''90.4'') None
                  (Some ''+150.9 years'') (Thrown AbortError)))) ''cached''
        \<noteq> Some (FBool True)) \<and>
   (\<exists>c'. c' \<noteq> Map.empty \<and>
      c' = snd (marine_handler Map.empty 0 (marine_query_of ''0'' ''0'' ''0'' ''0'')
                  (Resp 200 (Some hourly_doc)) (Threw AbortError)) \<and>
      fst (marine_handler c' 300000 marine_query_alt (Threw AbortError) (Threw AbortError))
        = reply 200 (with_prop (marine_payload hourly_doc (Fin 0) (Fin 0) None)
                       ''cached'' (FBool True)) \<and>
      map_of (body (fst (marine_handler c' 300001 marine_query_alt
                  (Threw AbortError) (Threw AbortError)))) ''cached'' \<noteq> Some (FBool True))"
proof -
  note T = cached_within_ttl[where c=Map.empty and now=0
      and use_mock=False and gen=first_mock and q_city="Some ''Dhaka''"
      and nom="Resp 200 (Some [dhaka])" and met="Resp 200 (Some ''{}'')"
      and lw="Threw AbortError"
      and lat="Some ''23.7''" and latitude=None and lon=None and longitude="Some ''90.4''"
      and work="Props [(''sample'', FNull)]" and yrs="Some ''200''"
      and ?work2.0="Props [(''years'', FNumber (Fin 100))]"
      and q="marine_query_of ''0'' ''0'' ''0'' ''0''"
      and first="Resp 200 (Some hourly_doc)" and second="Threw AbortError"]
  have F: "\<exists>c'. c' \<noteq> Map.empty \<and>
      c' = snd (forecast_handler Map.empty 0 False first_mock (Some ''Dhaka'')
                  (Resp 200 (Some [dhaka])) (Resp 200 (Some ''{}'')) (Threw AbortError)) \<and>
      fst (forecast_handler c' 600000 False first_mock (Some ''  DHAKA '')
                  (Threw AbortError) (Threw AbortError) (Threw AbortError))
        = reply 200 (with_prop dhaka_payload ''cached'' (FBool True)) \<and>
      map_of (body (fst (forecast_handler c' 600001 False first_mock (Some ''  DHAKA '')
                  (Threw AbortError) (Threw AbortError) (Threw AbortError)))) ''cached''
        \<noteq> Some (FBool True)"
  proof -
    define c' where "c' = snd (forecast_handler Map.empty 0 False first_mock (Some ''Dhaka'')
        (Resp 200 (Some [dhaka])) (Resp 200 (Some ''{}'')) (Threw AbortError))"
    have ne: "c' \<noteq> Map.empty"
      by (simp add: c'_def forecast_fills_cache cache_set_nonempty)
    have cd: "c' = snd (forecast_handler Map.empty 0 False first_mock (Some ''Dhaka'') (Resp 200
        (Some [dhaka])) (Resp 200 (Some ''{}'')) (Threw AbortError)) \<and> c' \<noteq> Map.empty"
      using ne by (simp add: c'_def)
    from T[THEN conjunct1, rule_format, OF cd]
    obtain p where e: "forecast_handler Map.empty 0 False first_mock (Some ''Dhaka'')
          (Resp 200 (Some [dhaka])) (Resp 200 (Some ''{}'')) (Threw AbortError)
          = (reply 200 (with_prop p ''cached'' (FBool False)),
             cache_set Map.empty 0 (forecast_cacheKey (Some ''Dhaka'')) p None)"
      and h: "\<forall>now' um' g' q' n1' n2' n3'.
          forecast_cacheKey q' = forecast_cacheKey (Some ''Dhaka'') \<and>
          now' \<le> 0 + 10 * 60 * 1000 \<longrightarrow>
          forecast_handler c' now' um' g' q' n1' n2' n3'
            = (reply 200 (with_prop p ''cached'' (FBool True)), c')"
      and ms: "\<forall>now' um' g' q' n1' n2' n3'.
          forecast_cacheKey q' = forecast_cacheKey (Some ''Dhaka'') \<and>
          0 + 10 * 60 * 1000 < now' \<longrightarrow>
          map_of (body (fst (forecast_handler c' now' um' g' q' n1' n2' n3')))
              ''cached'' \<noteq> Some (FBool True)"
      by blast
    have p: "p = dhaka_payload"
      using e by (simp add: forecast_fills_cache cache_set_value)
    have "forecast_handler c' 600000 False first_mock (Some ''  DHAKA '') (Threw AbortError)
        (Threw AbortError) (Threw AbortError)
          = (reply 200 (with_prop p ''cached'' (FBool True)), c')"
      using h same_keys(1) by simp
    then have a: "fst (forecast_handler c' 600000 False first_mock (Some ''  DHAKA '')
        (Threw AbortError) (Threw AbortError) (Threw AbortError))
          = reply 200 (with_prop dhaka_payload ''cached'' (FBool True))"
      by (simp add: p)
    have b: "map_of (body (fst (forecast_handler c' 600001 False first_mock (Some ''  DHAKA '')
        (Threw AbortError) (Threw AbortError) (Threw AbortError)))) ''cached''
          \<noteq> Some (FBool True)"
      using ms same_keys(1) by simp
    show ?thesis using ne c'_def a b by blast
  qed
  have A: "\<exists>c'. c' \<noteq> Map.empty \<and>
      c' = snd (aq_handler Map.empty 0 (Some ''23.7'') None None (Some ''90.4'')
                  (Props [(''sample'', FNull)])) \<and>
      fst (aq_handler c' 300000 None (Some ''23.7'') (Some ''90.4'') None (Thrown AbortError))
        = reply 200 (with_prop [(''lat'', FString ''23.7''), (''lon'', FString ''90.4''),
                                (''sample'', FNull), (''source'', FString ''open-meteo'')]
                       ''cached'' (FBool True)) \<and>
      map_of (body (fst (aq_handler c' 300001 None (Some ''23.7'') (Some ''90.4'') None
                  (Thrown AbortError)))) ''cached'' \<noteq> Some (FBool True)"
  proof -
    define c' where "c' = snd (aq_handler Map.empty 0 (Some ''23.7'') None None (Some ''90.4'')
        (Props [(''sample'', FNull)]))"
    have ne: "c' \<noteq> Map.empty"
      by (simp add: c'_def aq_fills_cache cache_set_nonempty)
    have cd: "c' = snd (aq_handler Map.empty 0 (Some ''23.7'') None None (Some ''90.4'') (Props
        [(''sample'', FNull)])) \<and> c' \<noteq> Map.empty"
      using ne by (simp add: c'_def)
    from T[THEN conjunct2, THEN conjunct1, rule_format, OF cd]
    obtain p where e: "aq_handler Map.empty 0 (Some ''23.7'') None None (Some ''90.4'')
          (Props [(''sample'', FNull)])
          = (reply 200 (with_prop p ''cached'' (FBool False)),
             cache_set Map.empty 0 (aq_cacheKey (Some ''23.7'') None None (Some ''90.4'')) p
               (Some (60 * 5)))"
      and h: "\<forall>now' a' b' x' y' wk'.
          \<not> falsy (js_or a' b') \<and> \<not> falsy (js_or x' y') \<and>
          aq_cacheKey a' b' x' y' = aq_cacheKey (Some ''23.7'') None None (Some ''90.4'') \<and>
          now' \<le> 0 + 5 * 60 * 1000 \<longrightarrow>
          aq_handler c' now' a' b' x' y' wk' = (reply 200 (with_prop p ''cached'' (FBool True)), c')"
      and ms: "\<forall>now' a' b' x' y' wk'.
          aq_cacheKey a' b' x' y' = aq_cacheKey (Some ''23.7'') None None (Some ''90.4'') \<and>
          0 + 5 * 60 * 1000 < now' \<longrightarrow>
          map_of (body (fst (aq_handler c' now' a' b' x' y' wk'))) ''cached''
            \<noteq> Some (FBool True)"
      by blast
    have p: "p = [(''lat'', FString ''23.7''), (''lon'', FString ''90.4''),
                  (''sample'', FNull), (''source'', FString ''open-meteo'')]"
      using e by (simp add: aq_fills_cache cache_set_value)
    have "aq_handler c' 300000 None (Some ''23.7'') (Some ''90.4'') None (Thrown AbortError)
          = (reply 200 (with_prop p ''cached'' (FBool True)), c')"
      using h same_keys(2,3,4) by simp
    then have a: "fst (aq_handler c' 300000 None (Some ''23.7'') (Some ''90.4'') None
        (Thrown AbortError))
          = reply 200 (with_prop [(''lat'', FString ''23.7''), (''lon'', FString ''90.4''),
                                  (''sample'', FNull), (''source'', FString ''open-meteo'')]
                         ''cached'' (FBool True))"
      by (simp add: p)
    have b: "map_of (body (fst (aq_handler c' 300001 None (Some ''23.7'') (Some ''90.4'') None
        (Thrown AbortError)))) ''cached'' \<noteq> Some (FBool True)"
      using ms same_keys(4) by simp
    show ?thesis using ne c'_def a b by blast
  qed
  have C: "\<exists>c'. c' \<noteq> Map.empty \<and>
      c' = snd (climate_handler Map.empty 0 (Some ''23.7'') None None (Some ''90.4'')
                  (Some ''200'') (Props [(''years'', FNumber (Fin 100))])) \<and>
      fst (climate_handler c' 86400000 None (Some ''23.7'') (Some ''90.4'') None
                  (Some ''+150.9 years'') (Thrown AbortError))
        = reply 200 (with_prop [(''years'', FNumber (Fin 100))] ''cached'' (FBool True)) \<and>
      map_of (body (fst (climate_handler c' 86400001 None (Some ''23.7'') (Some ''90.4'') None
                  (Some ''+150.9 years'') (Thrown AbortError)))) ''cached''
        \<noteq> Some (FBool True)"
  proof -
    define c' where "c' = snd (climate_handler Map.empty 0 (Some ''23.7'') None None (Some
        ''90.4'') (Some ''200'') (Props [(''years'', FNumber (Fin 100))]))"
    have ne: "c' \<noteq> Map.empty"
      by (simp add: c'_def climate_fills_cache cache_set_nonempty)
    have cd: "c' = snd (climate_handler Map.empty 0 (Some ''23.7'') None None (Some ''90.4'')
        (Some ''200'') (Props [(''years'', FNumber (Fin 100))])) \<and> c' \<noteq> Map.empty"
      using ne by (simp add: c'_def)
    from T[THEN conjunct2, THEN conjunct2, THEN conjunct1, rule_format, OF cd]
    obtain p where e: "climate_handler Map.empty 0 (Some ''23.7'') None None (Some ''90.4'')
          (Some ''200'') (Props [(''years'', FNumber (Fin 100))])
          = (reply 200 (with_prop p ''cached'' (FBool False)),
             cache_set Map.empty 0
               (climate_cacheKey (Some ''23.7'') None None (Some ''90.4'') (Some ''200'')) p
               (Some (60 * 60 * 24)))"
      and h: "\<forall>now' a' b' x' y' yrs' wk'.
          \<not> falsy (js_or a' b') \<and> \<not> falsy (js_or x' y') \<and>
          climate_cacheKey a' b' x' y' yrs'
            = climate_cacheKey (Some ''23.7'') None None (Some ''90.4'') (Some ''200'') \<and>
          now' \<le> 0 + 24 * 60 * 60 * 1000 \<longrightarrow>
          climate_handler c' now' a' b' x' y' yrs' wk'
            = (reply 200 (with_prop p ''cached'' (FBool True)), c')"
      and ms: "\<forall>now' a' b' x' y' yrs' wk'.
          climate_cacheKey a' b' x' y' yrs'
            = climate_cacheKey (Some ''23.7'') None None (Some ''90.4'') (Some ''200'') \<and>
          0 + 24 * 60 * 60 * 1000 < now' \<longrightarrow>
          map_of (body (fst (climate_handler c' now' a' b' x' y' yrs' wk'))) ''cached''
            \<noteq> Some (FBool True)"
      by blast
    have p: "p = [(''years'', FNumber (Fin 100))]"
      using e by (simp add: climate_fills_cache cache_set_value)
    have "climate_handler c' 86400000 None (Some ''23.7'') (Some ''90.4'') None
        (Some ''+150.9 years'') (Thrown AbortError)
          = (reply 200 (with_prop p ''cached'' (FBool True)), c')"
      using h same_keys(2,3,5) by simp
    then have a: "fst (climate_handler c' 86400000 None (Some ''23.7'') (Some ''90.4'') None
        (Some ''+150.9 years'') (Thrown AbortError))
          = reply 200 (with_prop [(''years'', FNumber (Fin 100))] ''cached'' (FBool True))"
      by (simp add: p)
    have b: "map_of (body (fst (climate_handler c' 86400001 None (Some ''23.7'') (Some ''90.4'')
        None (Some ''+150.9 years'') (Thrown AbortError)))) ''cached'' \<noteq> Some (FBool True)"
      using ms same_keys(5) by simp
    show ?thesis using ne c'_def a b by blast
  qed
  have M: "\<exists>c'. c' \<noteq> Map.empty \<and>
      c' = snd (marine_handler Map.empty 0 (marine_query_of ''0'' ''0'' ''0'' ''0'')
                  (Resp 200 (Some hourly_doc)) (Threw AbortError)) \<and>
      fst (marine_handler c' 300000 marine_query_alt (Threw AbortError) (Threw AbortError))
        = reply 200 (with_prop (marine_payload hourly_doc (Fin 0) (Fin 0) None)
                       ''cached'' (FBool True)) \<and>
      map_of (body (fst (marine_handler c' 300001 marine_query_alt
                  (Threw AbortError) (Threw AbortError)))) ''cached'' \<noteq> Some (FBool True)"
  proof -
    define c' where "c' = snd (marine_handler Map.empty 0 (marine_query_of ''0'' ''0'' ''0''
        ''0'') (Resp 200 (Some hourly_doc)) (Threw AbortError))"
    have ne: "c' \<noteq> Map.empty"
      by (simp add: c'_def marine_fills_cache cache_set_nonempty)
    have cd: "c' = snd (marine_handler Map.empty 0 (marine_query_of ''0'' ''0'' ''0'' ''0'')
        (Resp 200 (Some hourly_doc)) (Threw AbortError)) \<and> c' \<noteq> Map.empty"
      using ne by (simp add: c'_def)
    from T[THEN conjunct2, THEN conjunct2, THEN conjunct2, THEN conjunct1, rule_format, OF cd]
    obtain p where e: "marine_handler Map.empty 0 (marine_query_of ''0'' ''0'' ''0'' ''0'')
          (Resp 200 (Some hourly_doc)) (Threw AbortError)
          = (reply 200 (with_prop p ''cached'' (FBool False)),
             cache_set Map.empty 0 (marine_cacheKey (marine_query_of ''0'' ''0'' ''0'' ''0'')) p
               (Some (60 * 5)))"
      and h: "\<forall>now' q' f1' f2'.
          marine_cacheKey q' = marine_cacheKey (marine_query_of ''0'' ''0'' ''0'' ''0'') \<and>
          now' \<le> 0 + 5 * 60 * 1000 \<longrightarrow>
          marine_handler c' now' q' f1' f2'
            = (reply 200 (with_prop p ''cached'' (FBool True)), c')"
      and ms: "\<forall>now' q' f1' f2'.
          marine_cacheKey q' = marine_cacheKey (marine_query_of ''0'' ''0'' ''0'' ''0'') \<and>
          0 + 5 * 60 * 1000 < now' \<longrightarrow>
          map_of (body (fst (marine_handler c' now' q' f1' f2'))) ''cached''
            \<noteq> Some (FBool True)"
      by blast
    have p: "p = marine_payload hourly_doc (Fin 0) (Fin 0) None"
      using e by (simp add: marine_fills_cache cache_set_value)
    have "marine_handler c' 300000 marine_query_alt (Threw AbortError) (Threw AbortError)
          = (reply 200 (with_prop p ''cached'' (FBool True)), c')"
      using h same_keys(6) by simp
    then have a: "fst (marine_handler c' 300000 marine_query_alt (Threw AbortError)
        (Threw AbortError))
          = reply 200 (with_prop (marine_payload hourly_doc (Fin 0) (Fin 0) None)
                         ''cached'' (FBool True))"
      by (simp add: p)
    have b: "map_of (body (fst (marine_handler c' 300001 marine_query_alt (Threw AbortError)
        (Threw AbortError)))) ''cached'' \<noteq> Some (FBool True)"
      using ms same_keys(6) by simp
    show ?thesis using ne c'_def a b by blast
  qed
  show ?thesis
    by (intro conjI) (rule F A C M)+
qed

end
